theory Spec2Isabelle
  imports Complex_Main "HOL-Library.Sublist"
begin

section \<open>Python strings\<close>

text \<open>
  A Python \<open>str\<close> is modelled as an Isabelle \<open>string\<close> of ASCII characters: one \<open>char\<close> per
  code point. The character classes below are the ASCII part of what \<open>str.isspace\<close>,
  \<open>str.lower\<close> and the \<open>re\<close> module's \<open>\s\<close> and \<open>\w\<close> accept (for a \<open>str\<close> pattern, \<open>\s\<close>
  and \<open>str.strip\<close> agree: tab, line feed, vertical tab, form feed, carriage return, the four
  separators 0x1C..0x1F and the space). Characters from 0x80 on are outside the model: they
  are treated as neither whitespace nor word characters and are left alone by \<open>lower\<close>.
\<close>

definition is_space :: "char \<Rightarrow> bool" where
  "is_space c = (let n = (of_char c :: nat) in (9 \<le> n \<and> n \<le> 13) \<or> (28 \<le> n \<and> n \<le> 32))"

definition is_upper :: "char \<Rightarrow> bool" where
  "is_upper c = (let n = (of_char c :: nat) in 65 \<le> n \<and> n \<le> 90)"

definition is_word :: "char \<Rightarrow> bool" where
  "is_word c = (let n = (of_char c :: nat) in
     (48 \<le> n \<and> n \<le> 57) \<or> (65 \<le> n \<and> n \<le> 90) \<or> n = 95 \<or> (97 \<le> n \<and> n \<le> 122))"

definition lower_char :: "char \<Rightarrow> char" where
  "lower_char c = (if is_upper c then char_of (of_char c + (32::nat)) else c)"

text \<open>\<open>str.lower()\<close>, \<open>str.strip()\<close> and \<open>str.split()\<close> (no argument: split at runs of
  whitespace, no empty words).\<close>

definition lower :: "string \<Rightarrow> string" where
  "lower s = map lower_char s"

definition strip :: "string \<Rightarrow> string" where
  "strip s = rev (dropWhile is_space (rev (dropWhile is_space s)))"

fun split_ws :: "string \<Rightarrow> string \<Rightarrow> string list" where
  "split_ws acc [] = (if acc = [] then [] else [rev acc])"
| "split_ws acc (c # cs) =
     (if is_space c then (if acc = [] then split_ws [] cs else rev acc # split_ws [] cs)
      else split_ws (c # acc) cs)"

definition py_split :: "string \<Rightarrow> string list" where
  "py_split s = split_ws [] s"

text \<open>Decimal rendering of an integer, as an f-string does it.\<close>

definition digit_char :: "nat \<Rightarrow> char" where
  "digit_char n = char_of (48 + n)"

function show_nat :: "nat \<Rightarrow> string" where
  "show_nat n = (if n < 10 then [digit_char n] else show_nat (n div 10) @ [digit_char (n mod 10)])"
  by pat_completeness auto
termination
  by (relation "measure id") auto

definition show_int :: "int \<Rightarrow> string" where
  "show_int i = (if i < 0 then CHR ''-'' # show_nat (nat (- i)) else show_nat (nat i))"

section \<open>Regular expressions\<close>

text \<open>
  The fragment of Python's \<open>re\<close> syntax that the agents' patterns use, with a backtracking
  matcher that tries the alternatives in the order \<open>re\<close> does: the left branch of \<open>|\<close> first,
  a greedy \<open>?\<close>, \<open>*\<close> or \<open>+\<close> longest first, a lazy \<open>+?\<close> shortest first. Quantifiers stand on
  character classes only, as in every pattern of the source. \<open>Group\<close> is the (single)
  capturing group, \<open>Eol\<close> is \<open>$\<close>, which without \<open>re.MULTILINE\<close> holds at the end of the
  string and just before a line feed that ends the string.

  The matcher is written in continuation-passing style: \<open>rmatch r k (inp, g)\<close> matches \<open>r\<close>
  at the start of \<open>inp\<close> and hands the rest of the input and the text captured so far to the
  continuation \<open>k\<close>; \<open>None\<close> from the continuation makes it backtrack.
\<close>

datatype catom = Word | Space

fun atom_match :: "catom \<Rightarrow> char \<Rightarrow> bool" where
  "atom_match Word c = is_word c"
| "atom_match Space c = is_space c"

definition in_class :: "catom list \<Rightarrow> char \<Rightarrow> bool" where
  "in_class as c = list_ex (\<lambda>a. atom_match a c) as"

datatype regex =
    Lit string
  | Alt regex regex
  | Seq regex regex
  | Opt regex
  | Plus "catom list"
  | Star "catom list"
  | PlusLazy "catom list"
  | Group regex
  | Eol

type_synonym mstate = "string \<times> string option"

fun lazy_plus :: "(char \<Rightarrow> bool) \<Rightarrow> (string \<Rightarrow> mstate option) \<Rightarrow> string \<Rightarrow> mstate option" where
  "lazy_plus P k [] = None"
| "lazy_plus P k (c # cs) =
     (if P c then (case k cs of Some r \<Rightarrow> Some r | None \<Rightarrow> lazy_plus P k cs) else None)"

fun greedy_star :: "(char \<Rightarrow> bool) \<Rightarrow> (string \<Rightarrow> mstate option) \<Rightarrow> string \<Rightarrow> mstate option" where
  "greedy_star P k [] = k []"
| "greedy_star P k (c # cs) =
     (if P c then (case greedy_star P k cs of Some r \<Rightarrow> Some r | None \<Rightarrow> k (c # cs))
      else k (c # cs))"

fun greedy_plus :: "(char \<Rightarrow> bool) \<Rightarrow> (string \<Rightarrow> mstate option) \<Rightarrow> string \<Rightarrow> mstate option" where
  "greedy_plus P k [] = None"
| "greedy_plus P k (c # cs) = (if P c then greedy_star P k cs else None)"

fun rmatch :: "regex \<Rightarrow> (mstate \<Rightarrow> mstate option) \<Rightarrow> mstate \<Rightarrow> mstate option" where
  "rmatch (Lit l) k (inp, g) = (if prefix l inp then k (drop (length l) inp, g) else None)"
| "rmatch (Alt a b) k st = (case rmatch a k st of Some r \<Rightarrow> Some r | None \<Rightarrow> rmatch b k st)"
| "rmatch (Seq a b) k st = rmatch a (\<lambda>st'. rmatch b k st') st"
| "rmatch (Opt a) k st = (case rmatch a k st of Some r \<Rightarrow> Some r | None \<Rightarrow> k st)"
| "rmatch (Plus cl) k (inp, g) = greedy_plus (in_class cl) (\<lambda>rest. k (rest, g)) inp"
| "rmatch (Star cl) k (inp, g) = greedy_star (in_class cl) (\<lambda>rest. k (rest, g)) inp"
| "rmatch (PlusLazy cl) k (inp, g) = lazy_plus (in_class cl) (\<lambda>rest. k (rest, g)) inp"
| "rmatch (Group a) k (inp, g) =
     rmatch a (\<lambda>(rest, g'). k (rest, Some (take (length inp - length rest) inp))) (inp, g)"
| "rmatch Eol k (inp, g) = (if inp = [] \<or> inp = [CHR 0x0A] then k (inp, g) else None)"

text \<open>\<open>re.search\<close>: the first start position, from the left, where the pattern matches. The
  result is the input left after the match and the text of group 1.\<close>

fun re_search :: "regex \<Rightarrow> string \<Rightarrow> mstate option" where
  "re_search r [] = rmatch r Some ([], None)"
| "re_search r (c # cs) =
     (case rmatch r Some (c # cs, None) of Some m \<Rightarrow> Some m | None \<Rightarrow> re_search r cs)"

text \<open>\<open>re.sub(r, '', s)\<close>: every match of \<open>r\<close>, found from left to right without overlap, is
  deleted. (A match of the empty string is replaced by the empty string, which changes
  nothing; the function is used with a pattern that matches no empty string.)\<close>

function re_sub :: "regex \<Rightarrow> string \<Rightarrow> string" where
  "re_sub r [] = []"
| "re_sub r (c # cs) =
     (case rmatch r Some (c # cs, None) of
        None \<Rightarrow> c # re_sub r cs
      | Some (rest, g) \<Rightarrow> if length rest \<le> length cs then re_sub r rest else c # re_sub r cs)"
  by pat_completeness auto
termination
  by (relation "measure (\<lambda>(r, s). length s)") auto

text \<open>Concatenation of several patterns and alternation of several literals.\<close>

fun seqs :: "regex list \<Rightarrow> regex" where
  "seqs [] = Lit []"
| "seqs [r] = r"
| "seqs (r # rs) = Seq r (seqs rs)"

fun alts :: "string list \<Rightarrow> regex" where
  "alts [] = Lit []"
| "alts [l] = Lit l"
| "alts (l # ls) = Alt (Lit l) (alts ls)"

text \<open>What a pattern can match, stated without the search order: \<open>rm r inp rest\<close> holds when
  \<open>r\<close> matches a prefix of \<open>inp\<close> that leaves \<open>rest\<close>. It is used to reason about the matcher,
  not to run it.\<close>

fun rm :: "regex \<Rightarrow> string \<Rightarrow> string \<Rightarrow> bool" where
  "rm (Lit l) inp rest = (inp = l @ rest)"
| "rm (Alt a b) inp rest = (rm a inp rest \<or> rm b inp rest)"
| "rm (Seq a b) inp rest = (\<exists>mid. rm a inp mid \<and> rm b mid rest)"
| "rm (Opt a) inp rest = (rm a inp rest \<or> rest = inp)"
| "rm (Plus cl) inp rest = (\<exists>u. u \<noteq> [] \<and> list_all (in_class cl) u \<and> inp = u @ rest)"
| "rm (Star cl) inp rest = (\<exists>u. list_all (in_class cl) u \<and> inp = u @ rest)"
| "rm (PlusLazy cl) inp rest = (\<exists>u. u \<noteq> [] \<and> list_all (in_class cl) u \<and> inp = u @ rest)"
| "rm (Group a) inp rest = rm a inp rest"
| "rm Eol inp rest = (rest = inp \<and> (inp = [] \<or> inp = [CHR 0x0A]))"

section \<open>Python values and exceptions\<close>

text \<open>
  A decoded JSON document. Python's \<open>int\<close> and \<open>float\<close> are both \<open>JNum\<close>, over the exact
  reals: arithmetic on them is the exact arithmetic that the float operations of the
  source approximate, and \<open>round(x, n)\<close> is rounding of the exact value to \<open>n\<close> decimals, ties
  to even. A \<open>dict\<close> is an association list read with \<open>map_of\<close>.
\<close>

datatype json =
    JNull
  | JBool bool
  | JNum real
  | JStr string
  | JArr "json list"
  | JObj "(string \<times> json) list"

type_synonym dict = "(string \<times> json) list"

text \<open>The exceptions the modelled code can meet. \<open>ExternalError\<close> is whatever a client
  library raises (a failed model call, a transport error, a body that is not JSON).\<close>

datatype exn = KeyError | TypeError | IndexError | AttributeError | ExternalError string

definition bnd :: "exn + 'a \<Rightarrow> ('a \<Rightarrow> exn + 'b) \<Rightarrow> exn + 'b" where
  "bnd m f = (case m of Inl e \<Rightarrow> Inl e | Inr x \<Rightarrow> f x)"

text \<open>\<open>k in d\<close>, \<open>d.get(k)\<close> and \<open>d.get(k, dflt)\<close> on a dict.\<close>

definition has_key :: "dict \<Rightarrow> string \<Rightarrow> bool" where
  "has_key d k = (map_of d k \<noteq> None)"

definition dict_get_default :: "dict \<Rightarrow> string \<Rightarrow> json \<Rightarrow> json" where
  "dict_get_default d k dflt = (case map_of d k of None \<Rightarrow> dflt | Some v \<Rightarrow> v)"

definition dict_get :: "dict \<Rightarrow> string \<Rightarrow> json" where
  "dict_get d k = dict_get_default d k JNull"

text \<open>\<open>v[k]\<close> for a string key: \<open>KeyError\<close> on a dict without the key, \<open>TypeError\<close> on a list
  or a string (their indices must be integers) and on \<open>None\<close>, a number or a Boolean (not
  subscriptable).\<close>

fun subscript :: "json \<Rightarrow> string \<Rightarrow> exn + json" where
  "subscript (JObj d) k = (case map_of d k of None \<Rightarrow> Inl KeyError | Some v \<Rightarrow> Inr v)"
| "subscript v k = Inl TypeError"

text \<open>\<open>v[0]\<close>: the first element of a list or the first character of a string, \<open>IndexError\<close>
  when there is none; on a dict decoded from JSON every key is a string, so \<open>0\<close> is a
  missing key.\<close>

fun subscript0 :: "json \<Rightarrow> exn + json" where
  "subscript0 (JArr []) = Inl IndexError"
| "subscript0 (JArr (x # xs)) = Inr x"
| "subscript0 (JStr []) = Inl IndexError"
| "subscript0 (JStr (c # cs)) = Inr (JStr [c])"
| "subscript0 (JObj d) = Inl KeyError"
| "subscript0 v = Inl TypeError"

text \<open>\<open>v.get(k, dflt)\<close> and \<open>v.get(k)\<close> on any value: only a dict has the method.\<close>

fun get_method_default :: "json \<Rightarrow> string \<Rightarrow> json \<Rightarrow> exn + json" where
  "get_method_default (JObj d) k dflt = Inr (dict_get_default d k dflt)"
| "get_method_default v k dflt = Inl AttributeError"

definition get_method :: "json \<Rightarrow> string \<Rightarrow> exn + json" where
  "get_method v k = get_method_default v k JNull"

text \<open>Arithmetic and \<open>round\<close> take numbers (a Boolean counts as 0 or 1) and raise
  \<open>TypeError\<close> on anything else.\<close>

fun as_number :: "json \<Rightarrow> real option" where
  "as_number (JNum r) = Some r"
| "as_number (JBool b) = Some (if b then 1 else 0)"
| "as_number v = None"

definition arith :: "json \<Rightarrow> (real \<Rightarrow> real) \<Rightarrow> exn + real" where
  "arith v f = (case as_number v of None \<Rightarrow> Inl TypeError | Some r \<Rightarrow> Inr (f r))"

definition round_half_even :: "real \<Rightarrow> int" where
  "round_half_even x =
     (let f = \<lfloor>x\<rfloor>; d = x - of_int f
      in if d < 1 / 2 then f else if 1 / 2 < d then f + 1 else if even f then f else f + 1)"

definition py_round :: "real \<Rightarrow> nat \<Rightarrow> real" where
  "py_round x n = of_int (round_half_even (x * 10 ^ n)) / 10 ^ n"

text \<open>\<open>int(x)\<close> on a float truncates towards zero.\<close>

definition py_int :: "real \<Rightarrow> int" where
  "py_int x = (if 0 \<le> x then \<lfloor>x\<rfloor> else \<lceil>x\<rceil>)"

text \<open>Reading a value inside nested dicts, for the statements about envelopes.\<close>

fun lookup_path :: "json \<Rightarrow> string list \<Rightarrow> json option" where
  "lookup_path v [] = Some v"
| "lookup_path (JObj d) (k # ks) = (case map_of d k of None \<Rightarrow> None | Some v \<Rightarrow> lookup_path v ks)"
| "lookup_path v (k # ks) = None"

text \<open>The same for the result of a method that may raise: nothing is found in an
  exception.\<close>

definition envelope_key :: "exn + json \<Rightarrow> string list \<Rightarrow> json option" where
  "envelope_key r ks = (case r of Inl x \<Rightarrow> None | Inr e \<Rightarrow> lookup_path e ks)"

fun keys_of :: "json \<Rightarrow> string list option" where
  "keys_of (JObj d) = Some (map fst d)"
| "keys_of v = None"

section \<open>WeatherAgent.format_weather_data\<close>

text \<open>
  \<open>weather_agent.py\<close>, lines 187 to 234. The statements of the \<open>try\<close> block run in the
  order of the source; the first exception ends the block. Only \<open>KeyError\<close> is caught.
  \<open>format_body\<close> is the \<open>try\<close> block, \<open>format_weather_data\<close> the whole method.
\<close>

definition unavailable :: json where
  "unavailable = JObj [(''error'', JStr ''Weather data currently unavailable'')]"

definition formatting_error :: json where
  "formatting_error = JObj [(''error'', JStr ''Error formatting weather data'')]"

definition sub2 :: "dict \<Rightarrow> string \<Rightarrow> string \<Rightarrow> exn + json" where
  "sub2 data a b = bnd (subscript (JObj data) a) (\<lambda>v. subscript v b)"

definition weather0 :: "dict \<Rightarrow> string \<Rightarrow> exn + json" where
  "weather0 data b = bnd (bnd (subscript (JObj data) ''weather'') subscript0) (\<lambda>v. subscript v b)"

definition get2 :: "dict \<Rightarrow> string \<Rightarrow> string \<Rightarrow> exn + json" where
  "get2 data a b = bnd (get_method_default (JObj data) a (JObj [])) (\<lambda>v. get_method v b)"

definition format_body :: "dict \<Rightarrow> exn + json" where
  "format_body data =
     bnd (sub2 data ''main'' ''temp'') (\<lambda>temp_c.
     bnd (arith temp_c (\<lambda>x. x * 9 / 5 + 32)) (\<lambda>temp_f.
     bnd (sub2 data ''main'' ''humidity'') (\<lambda>humidity.
     bnd (weather0 data ''description'') (\<lambda>description.
     bnd (sub2 data ''wind'' ''speed'') (\<lambda>wind_speed.
     bnd (arith wind_speed (\<lambda>x. x * 2.237)) (\<lambda>wind_speed_mph.
     bnd (get2 data ''sys'' ''country'') (\<lambda>country.
     bnd (get2 data ''coord'' ''lat'') (\<lambda>lat.
     bnd (get2 data ''coord'' ''lon'') (\<lambda>lon.
     bnd (arith temp_c (\<lambda>x. py_round x 1)) (\<lambda>celsius.
     bnd (sub2 data ''main'' ''feels_like'') (\<lambda>feels_like.
     bnd (arith feels_like (\<lambda>x. py_round x 1)) (\<lambda>feels_like_c.
     bnd (arith feels_like (\<lambda>x. py_round (x * 9 / 5 + 32) 1)) (\<lambda>feels_like_f.
     bnd (weather0 data ''main'') (\<lambda>conditions_main.
     bnd (weather0 data ''icon'') (\<lambda>icon_code.
     bnd (arith wind_speed (\<lambda>x. py_round x 2)) (\<lambda>speed_ms.
     bnd (get2 data ''wind'' ''deg'') (\<lambda>direction_degrees.
     bnd (get2 data ''wind'' ''gust'') (\<lambda>gust_ms.
     bnd (bnd (subscript (JObj data) ''main'') (\<lambda>m. get_method m ''pressure'')) (\<lambda>pressure.
     Inr (JObj
       [(''location'', JObj
           [(''city'', dict_get data ''name''),
            (''country'', country),
            (''coordinates'', JObj [(''lat'', lat), (''lon'', lon)])]),
        (''temperature'', JObj
           [(''celsius'', JNum celsius),
            (''fahrenheit'', JNum (py_round temp_f 1)),
            (''feels_like_c'', JNum feels_like_c),
            (''feels_like_f'', JNum feels_like_f)]),
        (''humidity'', humidity),
        (''conditions'', JObj
           [(''main'', conditions_main),
            (''description'', description),
            (''icon_code'', icon_code)]),
        (''wind'', JObj
           [(''speed_ms'', JNum speed_ms),
            (''speed_mph'', JNum (py_round wind_speed_mph 2)),
            (''direction_degrees'', direction_degrees),
            (''gust_ms'', gust_ms)]),
        (''pressure'', pressure),
        (''visibility'', dict_get data ''visibility''),
        (''timezone'', dict_get data ''timezone'')]))))))))))))))))))))"

definition format_weather_data :: "dict \<Rightarrow> exn + json" where
  "format_weather_data data =
     (if data = [] \<or> has_key data ''error'' then Inr unavailable
      else (case format_body data of
              Inl KeyError \<Rightarrow> Inr formatting_error
            | r \<Rightarrow> r))"










section \<open>The outside world: clock, language model, weather provider\<close>

text \<open>
  The agents read the system clock and call two services. The environment \<open>env\<close> fixes what
  the outside answers: \<open>clock env n\<close> is the value of the \<open>n\<close>-th reading of the clock (in
  seconds, as \<open>time.time()\<close>), \<open>llm env n req\<close> is the outcome of the model call \<open>req\<close> made
  after \<open>n\<close> earlier calls (a message, or the exception the client raises), and
  \<open>http_get env n q\<close> is the outcome of the provider request for the city \<open>q\<close> made after \<open>n\<close>
  earlier requests (the URL, the API key and \<open>units=metric\<close> are constant). The remaining
  fields are library functions whose result is a string that no statement below depends
  on: \<open>datetime.isoformat\<close>, \<open>hash\<close>, \<open>json.dumps\<close>, \<open>str\<close> of a value, of a content list and of
  an exception. The \<open>world\<close> counts the clock readings and records the calls made, so that a
  statement can say that no call was made. \<open>print\<close> is not modelled.
\<close>

record llm_request =
  model :: string
  max_tokens :: int
  temperature :: "real option"
  system_prompt :: string
  user_content :: string

datatype content_block = TextBlock string | OtherBlock

text \<open>A message of the model: its content blocks (a block with a \<open>text\<close> attribute, or one
  without) and its usage metadata, the pair of input and output token counts; \<open>None\<close>
  stands for metadata that is missing or malformed (reading it raises \<open>AttributeError\<close> or
  \<open>TypeError\<close>).\<close>

record message =
  content :: "content_block list"
  usage :: "(int \<times> int) option"

text \<open>A response of the provider: the status code and the decoded body, a JSON object;
  \<open>None\<close> for a body for which \<open>response.json()\<close> raises.\<close>

record http_response =
  status_code :: int
  body :: "dict option"

record env =
  clock :: "nat \<Rightarrow> real"
  llm :: "nat \<Rightarrow> llm_request \<Rightarrow> exn + message"
  http_get :: "nat \<Rightarrow> string \<Rightarrow> exn + http_response"
  isoformat :: "real \<Rightarrow> string"
  py_hash :: "string \<Rightarrow> int"
  json_dumps :: "json \<Rightarrow> string"
  py_str :: "json \<Rightarrow> string"
  repr_content :: "content_block list \<Rightarrow> string"
  str_exn :: "exn \<Rightarrow> string"

record world =
  ticks :: nat
  llm_calls :: "llm_request list"
  http_calls :: "string list"

definition time_time :: "env \<Rightarrow> world \<Rightarrow> real \<times> world" where
  "time_time env w = (clock env (ticks w), w\<lparr>ticks := Suc (ticks w)\<rparr>)"

definition create :: "env \<Rightarrow> llm_request \<Rightarrow> world \<Rightarrow> (exn + message) \<times> world" where
  "create env req w = (llm env (length (llm_calls w)) req, w\<lparr>llm_calls := llm_calls w @ [req]\<rparr>)"

definition requests_get :: "env \<Rightarrow> string \<Rightarrow> world \<Rightarrow> (exn + http_response) \<times> world" where
  "requests_get env q w =
     (http_get env (length (http_calls w)) q, w\<lparr>http_calls := http_calls w @ [q]\<rparr>)"

definition haiku :: string where
  "haiku = ''claude-3-haiku-20240307''"

text \<open>\<open>message.content[0].text if hasattr(message.content[0], 'text') else
  str(message.content)\<close>; \<open>IndexError\<close> on an empty content list.\<close>

definition response_text :: "env \<Rightarrow> message \<Rightarrow> exn + string" where
  "response_text env m =
     (case content m of
        [] \<Rightarrow> Inl IndexError
      | TextBlock t # bs \<Rightarrow> Inr t
      | OtherBlock # bs \<Rightarrow> Inr (repr_content env (content m)))"

text \<open>A value inside an f-string: a string as it is, anything else through \<open>str\<close>.\<close>

definition fmt :: "env \<Rightarrow> json \<Rightarrow> string" where
  "fmt env v = (case v of JStr s \<Rightarrow> s | _ \<Rightarrow> py_str env v)"

section \<open>The rate-limit counter\<close>

text \<open>
  \<open>update_rate_limit\<close> is the same method in both agents (\<open>weather_agent.py\<close>, lines 236 to
  242; \<open>language_agent.py\<close>, lines 34 to 40). The clock is read only when the counter has
  reached zero or less, and a second time when the reset time has passed.
\<close>

record rate_limit_t =
  limit :: int
  remaining :: int
  reset_at :: int

definition init_rate_limit :: "real \<Rightarrow> rate_limit_t" where
  "init_rate_limit now = \<lparr>limit = 100000, remaining = 100000, reset_at = py_int now + 3600\<rparr>"

definition update_rate_limit :: "env \<Rightarrow> rate_limit_t \<Rightarrow> world \<Rightarrow> rate_limit_t \<times> world" where
  "update_rate_limit env rl w =
     (let rl1 = rl\<lparr>remaining := remaining rl - 1\<rparr> in
      if remaining rl1 \<le> 0 then
        (let (t1, w1) = time_time env w in
         if real_of_int (reset_at rl1) \<le> t1 then
           (let (t2, w2) = time_time env w1
            in (rl1\<lparr>remaining := limit rl1, reset_at := py_int t2 + 3600\<rparr>, w2))
         else (rl1, w1))
      else (rl1, w))"

text \<open>\<open>n\<close> consecutive calls of \<open>update_rate_limit\<close>.\<close>

fun repeat_update :: "env \<Rightarrow> nat \<Rightarrow> rate_limit_t \<times> world \<Rightarrow> rate_limit_t \<times> world" where
  "repeat_update env 0 s = s"
| "repeat_update env (Suc n) s = (case repeat_update env n s of (rl, w) \<Rightarrow> update_rate_limit env rl w)"

text \<open>The effect of one call on the counter, whatever the clock says: one less, or, from a
  counter at 1 or less, back to \<open>limit\<close> with a new reset time.\<close>

definition one_update :: "rate_limit_t \<Rightarrow> rate_limit_t \<Rightarrow> bool" where
  "one_update rl rl' =
     (rl' = rl\<lparr>remaining := remaining rl - 1\<rparr>
      \<or> (remaining rl \<le> 1 \<and> rl' = rl\<lparr>remaining := limit rl, reset_at := reset_at rl'\<rparr>))"

section \<open>WeatherAgent\<close>

datatype location = Location (city: string)

text \<open>The instance state that the methods change: the rate-limit dict and the last
  location. A location is the dict \<open>{"city": ...}\<close>; it is never empty, so \<open>not location\<close>
  holds exactly when the location is \<open>None\<close>.\<close>

record weather_agent =
  rate_limit :: rate_limit_t
  last_location :: "location option"

subsection \<open>extract_location (lines 31 to 69)\<close>

definition time_suffix :: regex where
  "time_suffix = Opt (Seq (Plus [Space]) (alts [''today'', ''now'', ''tomorrow'']))"

definition capture_tail :: "regex list" where
  "capture_tail = [Group (PlusLazy [Word, Space]), time_suffix, Opt (Lit ''?''), Eol]"

definition location_patterns :: "regex list" where
  "location_patterns =
    [ seqs ([Lit ''weather '', alts [''in'', ''at'', ''for''], Lit '' ''] @ capture_tail),
      seqs ([Lit ''weather ''] @ capture_tail),
      seqs ([alts [''what's'', ''what is'', ''how's'', ''how is''], Lit '' '', Opt (Lit ''the ''),
             Lit ''weather '', Opt (Lit ''like ''), alts [''in'', ''at'', ''for''], Lit '' '']
            @ capture_tail),
      seqs ([Lit ''temperature '', alts [''in'', ''at'', ''for''], Lit '' ''] @ capture_tail) ]"

text \<open>The pattern of the two \<open>re.sub\<close> calls: \<open>\s*(?:today|now|tomorrow)\s*$\<close>.\<close>

definition time_ref :: regex where
  "time_ref = seqs [Star [Space], alts [''today'', ''now'', ''tomorrow''], Star [Space], Eol]"

text \<open>The \<open>for\<close> loop over the patterns, left at the first match.\<close>

fun first_match :: "regex list \<Rightarrow> string \<Rightarrow> mstate option" where
  "first_match [] q = None"
| "first_match (p # ps) q = (case re_search p q of Some m \<Rightarrow> Some m | None \<Rightarrow> first_match ps q)"

definition extract_request :: "string \<Rightarrow> llm_request" where
  "extract_request query =
     \<lparr>model = haiku, max_tokens = 70, temperature = None,
      system_prompt = ''Extract only the city name from the weather query. Remove any time references. Respond with just the city name, nothing else.'',
      user_content = query\<rparr>"

text \<open>\<open>match.group(1)\<close> is \<open>None\<close> when the group took no part in the match, and \<open>.strip()\<close>
  on it raises \<open>AttributeError\<close>, outside the \<open>try\<close>. Inside the \<open>try\<close> every exception
  (the call's own, \<open>IndexError\<close> on an empty content list, \<open>AttributeError\<close> on a block
  without text) gives \<open>None\<close>.\<close>

definition extract_location :: "env \<Rightarrow> string \<Rightarrow> world \<Rightarrow> (exn + location option) \<times> world" where
  "extract_location env query0 w =
     (let query = strip (lower query0) in
      case first_match location_patterns query of
        Some (rest, g) \<Rightarrow>
          (case g of
             None \<Rightarrow> (Inl AttributeError, w)
           | Some captured \<Rightarrow> (Inr (Some (Location (re_sub time_ref (strip captured)))), w))
      | None \<Rightarrow>
          (case create env (extract_request query) w of
             (Inl e, w') \<Rightarrow> (Inr None, w')
           | (Inr message, w') \<Rightarrow>
               (case content message of
                  TextBlock t # bs \<Rightarrow>
                    (let location = re_sub time_ref (strip t)
                     in (Inr (if location \<noteq> [] then Some (Location location) else None), w'))
                | _ \<Rightarrow> (Inr None, w'))))"

text \<open>A city name made of word characters and whitespace that starts and ends with a word
  character and whose lower-case form does not end with the letters of a time word.\<close>

definition time_words :: "string list" where
  "time_words = [''today'', ''now'', ''tomorrow'']"

definition plain_city :: "string \<Rightarrow> bool" where
  "plain_city c =
     (c \<noteq> [] \<and> list_all (in_class [Word, Space]) c \<and> is_word (hd c) \<and> is_word (last c)
      \<and> list_all (\<lambda>t. \<not> suffix t (lower c)) time_words)"

subsection \<open>The query classifier (lines 71 to 95)\<close>

definition weather_keywords :: "string list" where
  "weather_keywords =
     [''weather'', ''temperature'', ''rain'', ''snow'', ''wind'', ''sunny'', ''cloudy'',
      ''forecast'', ''humidity'', ''storm'', ''climate'', ''precipitation'', ''cold'',
      ''hot'', ''warm'', ''chilly'', ''freezing'', ''degrees'', ''celsius'', ''fahrenheit'']"

definition is_weather_related :: "string \<Rightarrow> bool" where
  "is_weather_related query =
     (let query_words = py_split (lower query)
      in list_ex (\<lambda>keyword. List.member query_words keyword) weather_keywords)"

definition weather_patterns :: "regex list" where
  "weather_patterns =
     [ seqs [Lit ''weather '', alts [''in'', ''at'', ''for'']],
       seqs [alts [''what's'', ''what is'', ''how's'', ''how is''], Lit '' '', Opt (Lit ''the ''),
             Lit ''weather''],
       seqs [Lit ''temperature '', alts [''in'', ''at'', ''for'']],
       seqs [Lit ''is it '', alts [''raining'', ''snowing'', ''sunny'', ''cloudy'']],
       seqs [Lit ''will it '', alts [''rain'', ''snow'']],
       Lit ''forecast'' ]"

definition is_weather_query :: "string \<Rightarrow> bool" where
  "is_weather_query query =
     list_ex (\<lambda>pattern. re_search pattern (lower query) \<noteq> None) weather_patterns"

subsection \<open>Fetching weather data (lines 157 to 185)\<close>

text \<open>The whole method is one \<open>try\<close>: an exception of the request or of \<open>response.json()\<close>
  gives \<open>(None, 0, True)\<close>.\<close>

definition get_weather_data ::
    "env \<Rightarrow> location \<Rightarrow> world \<Rightarrow> (dict option \<times> int \<times> bool) \<times> world" where
  "get_weather_data env location w =
     (let c = strip (city location) in
      if c = [] then ((None, 0, True), w)
      else
        (let (start_time, w1) = time_time env w in
         case requests_get env c w1 of
           (Inl e, w2) \<Rightarrow> ((None, 0, True), w2)
         | (Inr response, w2) \<Rightarrow>
             (let (t, w3) = time_time env w2;
                  api_response_time = py_int ((t - start_time) * 1000)
              in if status_code response = 200 then
                   (case body response of
                      None \<Rightarrow> ((None, 0, True), w3)
                    | Some payload \<Rightarrow> ((Some payload, api_response_time, False), w3))
                 else ((None, api_response_time, True), w3))))"

subsection \<open>Confidence score and token usage (lines 154 to 155 and 244 to 279)\<close>

text \<open>\<open>weather_data\<close> is \<open>None\<close> or a dict; it is truthy when it is a non-empty dict, and
  \<open>weather_data if weather_data else {}\<close> is \<open>or_empty\<close>.\<close>

definition truthy :: "dict option \<Rightarrow> bool" where
  "truthy weather_data = (case weather_data of None \<Rightarrow> False | Some d \<Rightarrow> d \<noteq> [])"

definition or_empty :: "dict option \<Rightarrow> dict" where
  "or_empty weather_data = (case weather_data of None \<Rightarrow> [] | Some d \<Rightarrow> d)"

definition required_fields :: "string list" where
  "required_fields = [''main'', ''weather'', ''wind'']"

definition completeness :: "dict \<Rightarrow> real" where
  "completeness d =
     real (length (filter (has_key d) required_fields)) / real (length required_fields)"

text \<open>The list \<open>factors\<close> as it stands before the \<open>return\<close>. The clock is read before
  \<open>weather_data["dt"]\<close> is subtracted, which raises \<open>TypeError\<close> when it is not a number.\<close>

definition confidence_factors ::
    "env \<Rightarrow> dict option \<Rightarrow> int \<Rightarrow> world \<Rightarrow> (exn + real list) \<times> world" where
  "confidence_factors env weather_data response_time w =
     (let (r1, w1) =
            (if truthy weather_data \<and> has_key (or_empty weather_data) ''dt'' then
               (let (now, w') = time_time env w in
                case as_number (dict_get (or_empty weather_data) ''dt'') of
                  None \<Rightarrow> (Inl TypeError, w')
                | Some dt \<Rightarrow> (Inr [max 0 (1 - (now - dt) / 3600) * 0.4], w'))
             else (Inr [], w))
      in case r1 of
           Inl e \<Rightarrow> (Inl e, w1)
         | Inr f1 \<Rightarrow>
             (let f2 = (if truthy weather_data
                        then f1 @ [completeness (or_empty weather_data) * 0.4] else f1);
                  response_time_score = max 0 (1 - real_of_int response_time / 2000)
              in (Inr (f2 @ [response_time_score * 0.2]), w1)))"

definition calculate_confidence_score ::
    "env \<Rightarrow> dict option \<Rightarrow> int \<Rightarrow> world \<Rightarrow> (exn + real) \<times> world" where
  "calculate_confidence_score env weather_data response_time w =
     (case confidence_factors env weather_data response_time w of
        (Inl e, w1) \<Rightarrow> (Inl e, w1)
      | (Inr factors, w1) \<Rightarrow>
          (Inr (if factors \<noteq> [] then py_round (sum_list factors) 2 else 0.5), w1))"


definition estimate_tokens :: "string \<Rightarrow> int" where
  "estimate_tokens text = int (length (py_split text))"

definition calculate_token_usage :: "env \<Rightarrow> message \<Rightarrow> json" where
  "calculate_token_usage env m =
     (case usage m of
        Some (input_tokens, output_tokens) \<Rightarrow>
          JObj [(''total_tokens'', JNum (of_int (input_tokens + output_tokens))),
                (''input_tokens'', JNum (of_int input_tokens)),
                (''output_tokens'', JNum (of_int output_tokens)),
                (''billable_tokens'', JNum (of_int (input_tokens + output_tokens)))]
      | None \<Rightarrow>
          (let estimated_tokens = estimate_tokens (repr_content env (content m))
           in JObj [(''total_tokens'', JNum (of_int estimated_tokens)),
                    (''input_tokens'', JNull),
                    (''output_tokens'', JNull),
                    (''billable_tokens'', JNum (of_int estimated_tokens)),
                    (''estimation_method'', JStr ''word_count_approximation'')]))"

subsection \<open>The two generated replies (lines 97 to 152)\<close>

text \<open>The literals of the source end in an emoji, which is outside the character model and
  left out here.\<close>

definition chat_system_prompt :: string where
  "chat_system_prompt =
     ''You are a witty weather agent with a great sense of humor. '' @ [CHR 0x0A] @
     ''        Generate a funny response to the user's weather-related chat that incorporates '' @ [CHR 0x0A] @
     ''        both the location and current weather conditions. Keep it light and playful, '' @ [CHR 0x0A] @
     ''        but informative. Use weather puns and jokes when appropriate. Keep the response concise.''"

definition cloudy_moments :: "env \<Rightarrow> json \<Rightarrow> string" where
  "cloudy_moments env location_name =
     ''Well, '' @ fmt env location_name @
     '' is keeping me on my toes today... even forecasts have their cloudy moments! ''"

definition generate_weather_chat_response ::
    "env \<Rightarrow> string \<Rightarrow> json \<Rightarrow> world \<Rightarrow> (exn + string) \<times> world" where
  "generate_weather_chat_response env query weather_data w =
     (case bnd (get_method_default weather_data ''location'' (JObj []))
               (\<lambda>l. get_method_default l ''city'' (JStr ''your area'')) of
        Inl e \<Rightarrow> (Inl e, w)
      | Inr location_name \<Rightarrow>
          (case create env
                  \<lparr>model = haiku, max_tokens = 200, temperature = None,
                   system_prompt = chat_system_prompt,
                   user_content = ''Location: '' @ fmt env location_name @ [CHR 0x0A] @
                     ''Current weather: '' @ json_dumps env weather_data @ [CHR 0x0A] @
                     ''User chat: '' @ query\<rparr> w of
             (Inr message, w') \<Rightarrow>
               (case response_text env message of
                  Inr t \<Rightarrow> (Inr t, w')
                | Inl e \<Rightarrow> (Inr (cloudy_moments env location_name), w'))
           | (Inl e, w') \<Rightarrow> (Inr (cloudy_moments env location_name), w')))"

definition off_topic_system_prompt :: string where
  "off_topic_system_prompt =
     ''You are a weather agent. When users ask non-weather questions:'' @ [CHR 0x0A] @
     ''        - Respond with EXACTLY ONE short sentence'' @ [CHR 0x0A] @
     ''        - Include a weather-related pun or metaphor'' @ [CHR 0x0A] @
     ''        - Politely redirect to weather topics'' @ [CHR 0x0A] @
     ''        - Keep it under 15 words''"

definition fallback_responses :: "string list" where
  "fallback_responses =
     [''Let's forecast a change of topic to the weather instead! '',
      ''My expertise is as focused as a laser through a rain cloud - weather only! '',
      ''Like a weather vane, I only point towards meteorological matters! '',
      ''My forecast shows a 100% chance of weather-related conversations ahead! '']"

definition pick_fallback :: "env \<Rightarrow> world \<Rightarrow> string \<times> world" where
  "pick_fallback env w =
     (let (t, w') = time_time env w
      in (fallback_responses ! nat (py_int t mod int (length fallback_responses)), w'))"

definition generate_non_weather_response :: "env \<Rightarrow> string \<Rightarrow> world \<Rightarrow> string \<times> world" where
  "generate_non_weather_response env query w =
     (case create env
             \<lparr>model = haiku, max_tokens = 50, temperature = Some 0.7,
              system_prompt = off_topic_system_prompt,
              user_content = ''Off-topic question: '' @ query\<rparr> w of
        (Inr message, w') \<Rightarrow>
          (case response_text env message of
             Inr t \<Rightarrow> (t, w')
           | Inl e \<Rightarrow> pick_fallback env w')
      | (Inl e, w') \<Rightarrow> pick_fallback env w')"

subsection \<open>process_query (lines 281 to 432)\<close>

text \<open>
  The method is split at its three \<open>return\<close> statements with an envelope: \<open>off_topic\<close>
  (lines 290 to 323), \<open>weather_chat\<close> (lines 347 to 385) and \<open>weather_report\<close> (lines 388 to
  432); \<open>resolve_location\<close> is the \<open>if\<close>/\<open>elif\<close> chain of lines 329 to 339, with \<open>None\<close> for
  its \<open>return {"error": ...}\<close>. The entries of a dict display are evaluated from top to
  bottom, which fixes the order of the clock readings and of the model calls. An exception
  that the method does not catch is the result \<open>Inl\<close>; the state reached before it stays.
\<close>

definition request_id :: "env \<Rightarrow> string \<Rightarrow> real \<Rightarrow> string" where
  "request_id env query t =
     ''req_'' @ show_int (py_int t) @ ''_'' @ show_int (py_hash env query mod 10000)"

definition elapsed_ms :: "real \<Rightarrow> real \<Rightarrow> int" where
  "elapsed_ms t start_time = py_int ((t - start_time) * 1000)"

definition location_json :: "location \<Rightarrow> json" where
  "location_json l = JObj [(''city'', JStr (city l))]"

definition rate_limit_dict :: "rate_limit_t \<Rightarrow> json" where
  "rate_limit_dict rl =
     JObj [(''limit'', JNum (of_int (limit rl))),
           (''remaining'', JNum (of_int (remaining rl))),
           (''reset_at'', JNum (of_int (reset_at rl)))]"

definition rate_limit_iso :: "env \<Rightarrow> rate_limit_t \<Rightarrow> json" where
  "rate_limit_iso env rl =
     JObj [(''limit'', JNum (of_int (limit rl))),
           (''remaining'', JNum (of_int (remaining rl))),
           (''reset_at'', JStr (isoformat env (of_int (reset_at rl))))]"

definition location_error :: json where
  "location_error = JObj [(''error'', JStr ''Could not determine location from query'')]"

definition off_topic ::
    "env \<Rightarrow> string \<Rightarrow> real \<Rightarrow> weather_agent \<Rightarrow> world \<Rightarrow> (exn + json) \<times> weather_agent \<times> world" where
  "off_topic env query start_time ag w =
     (let (rl, w1) = update_rate_limit env (rate_limit ag) w;
          ag1 = ag\<lparr>rate_limit := rl\<rparr>;
          (t_id, w2) = time_time env w1;
          (t_stamp, w3) = time_time env w2;
          (t_end, w4) = time_time env w3;
          (txt, w5) = generate_non_weather_response env query w4
      in (Inr (JObj
            [(''meta'', JObj
                [(''request_id'', JStr (request_id env query t_id)),
                 (''timestamp'', JStr (isoformat env t_stamp)),
                 (''response_time_ms'', JNum (of_int (elapsed_ms t_end start_time))),
                 (''api_response_time_ms'', JNum 0),
                 (''version'', JStr ''1.0.0'')]),
             (''rate_limit'', rate_limit_iso env rl),
             (''response'', JObj
                [(''text'', JStr txt),
                 (''type'', JStr ''off_topic_response''),
                 (''confidence_score'', JNum 1),
                 (''data_freshness'', JStr ''N/A''),
                 (''fallback_used'', JBool False)]),
             (''usage'', JObj
                [(''total_tokens'', JNum 0),
                 (''input_tokens'', JNum 0),
                 (''output_tokens'', JNum 0),
                 (''billable_tokens'', JNum 0),
                 (''estimation_method'', JStr ''no_tokens_used'')]),
             (''query'', JObj
                [(''text'', JStr query),
                 (''is_weather_related'', JBool False),
                 (''extracted_location'', JNull)])]), ag1, w5))"

definition resolve_location ::
    "location option \<Rightarrow> bool \<Rightarrow> bool \<Rightarrow> weather_agent \<Rightarrow> (location \<times> weather_agent) option" where
  "resolve_location extracted is_direct_weather_query is_weather_chat ag =
     (case (extracted, last_location ag) of
        (None, Some cached) \<Rightarrow>
          if is_weather_chat \<and> \<not> is_direct_weather_query then Some (cached, ag)
          else if is_direct_weather_query then None
          else Some (Location ''general'', ag)
      | (Some location, l) \<Rightarrow> Some (location, ag\<lparr>last_location := Some location\<rparr>)
      | (None, None) \<Rightarrow>
          if is_direct_weather_query then None else Some (Location ''general'', ag))"

definition weather_chat ::
    "env \<Rightarrow> string \<Rightarrow> real \<Rightarrow> location \<Rightarrow> int \<Rightarrow> bool \<Rightarrow> json \<Rightarrow> weather_agent \<Rightarrow> world
       \<Rightarrow> (exn + json) \<times> weather_agent \<times> world" where
  "weather_chat env query start_time location api_response_time fallback_used formatted_weather ag w =
     (case create env
             \<lparr>model = haiku, max_tokens = 200, temperature = None,
              system_prompt = ''You are a witty weather chatbot. Be funny and engaging while discussing weather. Reference the location if available.'',
              user_content = ''The user is talking about '' @ city location @
                ''. Their message: '' @ query\<rparr> w of
        (Inl e, w1) \<Rightarrow> (Inl e, ag, w1)
      | (Inr message, w1) \<Rightarrow>
          (let (t, w2) = time_time env w1;
               total_response_time = elapsed_ms t start_time;
               token_usage = calculate_token_usage env message;
               (rl, w3) = update_rate_limit env (rate_limit ag) w2;
               ag1 = ag\<lparr>rate_limit := rl\<rparr>;
               (t_id, w4) = time_time env w3;
               (t_stamp, w5) = time_time env w4
           in case generate_weather_chat_response env query formatted_weather w5 of
                (Inl e, w6) \<Rightarrow> (Inl e, ag1, w6)
              | (Inr txt, w6) \<Rightarrow>
                  (Inr (JObj
                     [(''meta'', JObj
                         [(''request_id'', JStr (request_id env query t_id)),
                          (''timestamp'', JStr (isoformat env t_stamp)),
                          (''response_time_ms'', JNum (of_int total_response_time)),
                          (''api_response_time_ms'', JNum (of_int api_response_time)),
                          (''version'', JStr ''1.0.0'')]),
                      (''rate_limit'', rate_limit_dict rl),
                      (''weather_data'', formatted_weather),
                      (''response'', JObj
                         [(''text'', JStr txt),
                          (''type'', JStr ''weather_chat''),
                          (''confidence_score'', JNum 0.8),
                          (''data_freshness'', JStr ''chat response''),
                          (''fallback_used'', JBool fallback_used),
                          (''location_context'',
                             JStr (if Some location = last_location ag1 then ''cached'' else ''new''))]),
                      (''usage'', token_usage),
                      (''query'', JObj
                         [(''text'', JStr query),
                          (''is_weather_related'', JBool True),
                          (''extracted_location'', location_json location)])]), ag1, w6)))"

text \<open>\<open>int(time.time() - weather_data["dt"]) if weather_data and "dt" in weather_data else
  None\<close>, and the text made of it: \<open>0\<close> is falsy, as \<open>None\<close> is.\<close>

definition data_freshness_of ::
    "env \<Rightarrow> dict option \<Rightarrow> world \<Rightarrow> (exn + int option) \<times> world" where
  "data_freshness_of env weather_data w =
     (if truthy weather_data \<and> has_key (or_empty weather_data) ''dt'' then
        (let (now, w') = time_time env w in
         case as_number (dict_get (or_empty weather_data) ''dt'') of
           None \<Rightarrow> (Inl TypeError, w')
         | Some dt \<Rightarrow> (Inr (Some (py_int (now - dt))), w'))
      else (Inr None, w))"

definition freshness_text :: "int option \<Rightarrow> string" where
  "freshness_text data_freshness =
     (case data_freshness of
        None \<Rightarrow> ''unknown''
      | Some n \<Rightarrow> if n \<noteq> 0 then show_int n @ '' seconds ago'' else ''unknown'')"

definition weather_report ::
    "env \<Rightarrow> string \<Rightarrow> real \<Rightarrow> location \<Rightarrow> dict option \<Rightarrow> int \<Rightarrow> bool \<Rightarrow> json \<Rightarrow> weather_agent
       \<Rightarrow> world \<Rightarrow> (exn + json) \<times> weather_agent \<times> world" where
  "weather_report env query start_time location weather_data api_response_time fallback_used
       formatted_weather ag w =
     (case create env
             \<lparr>model = haiku, max_tokens = 400, temperature = None,
              system_prompt = ''You are a helpful and friendly weather assistant. Provide your response as plain text.'',
              user_content = ''Current weather data: '' @ json_dumps env formatted_weather @
                '' User query: '' @ query\<rparr> w of
        (Inl e, w1) \<Rightarrow> (Inl e, ag, w1)
      | (Inr message, w1) \<Rightarrow>
          (let (t, w2) = time_time env w1;
               total_response_time = elapsed_ms t start_time
           in case data_freshness_of env weather_data w2 of
                (Inl e, w3) \<Rightarrow> (Inl e, ag, w3)
              | (Inr data_freshness, w3) \<Rightarrow>
                  (case calculate_confidence_score env weather_data total_response_time w3 of
                     (Inl e, w4) \<Rightarrow> (Inl e, ag, w4)
                   | (Inr confidence_score, w4) \<Rightarrow>
                       (let token_usage = calculate_token_usage env message;
                            (rl, w5) = update_rate_limit env (rate_limit ag) w4;
                            ag1 = ag\<lparr>rate_limit := rl\<rparr>
                        in case response_text env message of
                             Inl e \<Rightarrow> (Inl e, ag1, w5)
                           | Inr txt \<Rightarrow>
                               (let (t_id, w6) = time_time env w5;
                                    (t_stamp, w7) = time_time env w6
                                in (Inr (JObj
                                     [(''meta'', JObj
                                         [(''request_id'', JStr (request_id env query t_id)),
                                          (''timestamp'', JStr (isoformat env t_stamp)),
                                          (''response_time_ms'', JNum (of_int total_response_time)),
                                          (''api_response_time_ms'', JNum (of_int api_response_time)),
                                          (''version'', JStr ''1.0.0'')]),
                                      (''rate_limit'', rate_limit_iso env rl),
                                      (''weather_data'', formatted_weather),
                                      (''response'', JObj
                                         [(''text'', JStr txt),
                                          (''type'', JStr ''weather_report''),
                                          (''confidence_score'', JNum confidence_score),
                                          (''data_freshness'', JStr (freshness_text data_freshness)),
                                          (''fallback_used'', JBool fallback_used)]),
                                      (''usage'', token_usage),
                                      (''query'', JObj
                                         [(''text'', JStr query),
                                          (''extracted_location'', location_json location)])]),
                                    ag1, w7))))))"

definition process_query ::
    "env \<Rightarrow> string \<Rightarrow> weather_agent \<Rightarrow> world \<Rightarrow> (exn + json) \<times> weather_agent \<times> world" where
  "process_query env query ag w =
     (let (start_time, w1) = time_time env w;
          is_direct_weather_query = is_weather_query query;
          is_weather_chat = is_weather_related query
      in if \<not> (is_direct_weather_query \<or> is_weather_chat) then off_topic env query start_time ag w1
         else
           (case extract_location env query w1 of
              (Inl e, w2) \<Rightarrow> (Inl e, ag, w2)
            | (Inr extracted, w2) \<Rightarrow>
                (case resolve_location extracted is_direct_weather_query is_weather_chat ag of
                   None \<Rightarrow> (Inr location_error, ag, w2)
                 | Some (location, ag1) \<Rightarrow>
                     (let ((weather_data, api_response_time, fallback_used), w3) =
                            get_weather_data env location w2
                      in case format_weather_data (or_empty weather_data) of
                           Inl e \<Rightarrow> (Inl e, ag1, w3)
                         | Inr formatted_weather \<Rightarrow>
                             if is_weather_chat \<and> \<not> is_direct_weather_query then
                               weather_chat env query start_time location api_response_time
                                 fallback_used formatted_weather ag1 w3
                             else
                               weather_report env query start_time location weather_data
                                 api_response_time fallback_used formatted_weather ag1 w3))))"

section \<open>LanguageAgent\<close>

text \<open>\<open>language_agent.py\<close>. The three token limits are set once in \<open>__init__\<close>. The body of
  \<open>process_query\<close> is one \<open>try\<close> (\<open>lang_try_body\<close>); the handler turns every exception into an
  error envelope, so the method itself never raises.\<close>

definition MIN_INPUT_TOKENS :: int where
  "MIN_INPUT_TOKENS = 1"

definition MAX_OUTPUT_TOKENS :: int where
  "MAX_OUTPUT_TOKENS = 512"

definition MAX_TOTAL_TOKENS :: int where
  "MAX_TOTAL_TOKENS = 200000"

record language_agent =
  lang_rate_limit :: rate_limit_t

definition lang_estimate_tokens :: "string \<Rightarrow> int" where
  "lang_estimate_tokens text = max 1 (int (length text) div 4)"

definition validate_input_length :: "string \<Rightarrow> bool" where
  "validate_input_length text =
     (let estimated_tokens = lang_estimate_tokens text
      in MIN_INPUT_TOKENS \<le> estimated_tokens \<and> estimated_tokens \<le> MAX_TOTAL_TOKENS)"

definition lang_calculate_token_usage :: "env \<Rightarrow> message \<Rightarrow> json" where
  "lang_calculate_token_usage env m =
     (case usage m of
        Some (input_tokens, output_tokens) \<Rightarrow>
          JObj [(''total_tokens'', JNum (of_int (input_tokens + output_tokens))),
                (''input_tokens'', JNum (of_int input_tokens)),
                (''output_tokens'', JNum (of_int output_tokens)),
                (''billable_tokens'', JNum (of_int (input_tokens + output_tokens)))]
      | None \<Rightarrow>
          (let estimated_tokens = lang_estimate_tokens (repr_content env (content m))
           in JObj [(''total_tokens'', JNum (of_int estimated_tokens)),
                    (''input_tokens'', JNull),
                    (''output_tokens'', JNull),
                    (''billable_tokens'', JNum (of_int estimated_tokens)),
                    (''estimation_method'', JStr ''word_count_approximation'')]))"

definition lang_request :: "string \<Rightarrow> string \<Rightarrow> llm_request" where
  "lang_request user_input language =
     \<lparr>model = haiku, max_tokens = MAX_OUTPUT_TOKENS, temperature = None,
      system_prompt = ''You are a helpful language assistant. Respond in '' @ language @
        '' language only.'',
      user_content = user_input\<rparr>"

definition length_error :: "env \<Rightarrow> real \<Rightarrow> json" where
  "length_error env t_stamp =
     JObj [(''error'', JStr (''Input text must be between '' @ show_int MIN_INPUT_TOKENS @
              '' and '' @ show_int MAX_TOTAL_TOKENS @ '' tokens'')),
           (''meta'', JObj [(''timestamp'', JStr (isoformat env t_stamp))])]"

definition lang_try_body ::
    "env \<Rightarrow> string \<Rightarrow> string \<Rightarrow> real \<Rightarrow> language_agent \<Rightarrow> world
       \<Rightarrow> (exn + json) \<times> language_agent \<times> world" where
  "lang_try_body env user_input language start_time ag w =
     (if \<not> validate_input_length user_input then
        (let (t_stamp, w1) = time_time env w
         in (Inr (length_error env t_stamp), ag, w1))
      else
        (case create env (lang_request user_input language) w of
           (Inl e, w1) \<Rightarrow> (Inl e, ag, w1)
         | (Inr message, w1) \<Rightarrow>
             (let (t, w2) = time_time env w1;
                  total_response_time = elapsed_ms t start_time;
                  token_usage = lang_calculate_token_usage env message;
                  (rl, w3) = update_rate_limit env (lang_rate_limit ag) w2;
                  ag1 = ag\<lparr>lang_rate_limit := rl\<rparr>
              in case response_text env message of
                   Inl e \<Rightarrow> (Inl e, ag1, w3)
                 | Inr txt \<Rightarrow>
                     (let (t_id, w4) = time_time env w3;
                          (t_stamp, w5) = time_time env w4
                      in (Inr (JObj
                            [(''meta'', JObj
                                [(''request_id'', JStr (request_id env user_input t_id)),
                                 (''timestamp'', JStr (isoformat env t_stamp)),
                                 (''response_time_ms'', JNum (of_int total_response_time)),
                                 (''version'', JStr ''1.0.0''),
                                 (''token_limits'', JObj
                                    [(''min_input'', JNum (of_int MIN_INPUT_TOKENS)),
                                     (''max_output'', JNum (of_int MAX_OUTPUT_TOKENS))])]),
                             (''rate_limit'', rate_limit_iso env rl),
                             (''response'', JObj
                                [(''text'', JStr txt),
                                 (''type'', JStr ''language_response''),
                                 (''language'', JStr language)]),
                             (''usage'', token_usage),
                             (''query'', JObj
                                [(''text'', JStr user_input),
                                 (''target_language'', JStr language)])]), ag1, w5)))))"

definition lang_process_query ::
    "env \<Rightarrow> string \<Rightarrow> string \<Rightarrow> language_agent \<Rightarrow> world \<Rightarrow> json \<times> language_agent \<times> world" where
  "lang_process_query env user_input language ag w =
     (let (start_time, w1) = time_time env w
      in case lang_try_body env user_input language start_time ag w1 of
           (Inr envelope, ag1, w2) \<Rightarrow> (envelope, ag1, w2)
         | (Inl e, ag1, w2) \<Rightarrow>
             (let (t_stamp, w3) = time_time env w2
              in (JObj [(''error'', JStr (str_exn env e)),
                        (''meta'', JObj [(''timestamp'', JStr (isoformat env t_stamp))])], ag1, w3)))"

section \<open>Concrete environments\<close>

text \<open>An environment with a constant clock in which every model call has the outcome
  \<open>reply\<close> and every provider request the outcome \<open>resp\<close>; the agents as \<open>__init__\<close> leaves
  them at time \<open>now\<close>; a world in which nothing has happened yet.\<close>

definition stub_env :: "real \<Rightarrow> exn + message \<Rightarrow> exn + http_response \<Rightarrow> env" where
  "stub_env now reply resp =
     \<lparr>clock = (\<lambda>n. now), llm = (\<lambda>n req. reply), http_get = (\<lambda>n q. resp),
      isoformat = (\<lambda>t. []), py_hash = (\<lambda>s. 0), json_dumps = (\<lambda>j. []), py_str = (\<lambda>j. []),
      repr_content = (\<lambda>c. []), str_exn = (\<lambda>e. [])\<rparr>"

definition ok_message :: "exn + message" where
  "ok_message = Inr \<lparr>content = [TextBlock ''ok''], usage = Some (1, 1)\<rparr>"

definition blank_message :: "exn + message" where
  "blank_message = Inr \<lparr>content = [TextBlock []], usage = None\<rparr>"

definition api_down :: "exn + message" where
  "api_down = Inl (ExternalError ''overloaded'')"

definition not_found :: "exn + http_response" where
  "not_found = Inr \<lparr>status_code = 404, body = None\<rparr>"

definition new_weather_agent :: "real \<Rightarrow> weather_agent" where
  "new_weather_agent now = \<lparr>rate_limit = init_rate_limit now, last_location = None\<rparr>"

definition new_language_agent :: "real \<Rightarrow> language_agent" where
  "new_language_agent now = \<lparr>lang_rate_limit = init_rate_limit now\<rparr>"

definition world0 :: world where
  "world0 = \<lparr>ticks = 0, llm_calls = [], http_calls = []\<rparr>"





section \<open>The rate-limit counter as a state machine\<close>

lemma update_rate_limit_decrement:
  assumes "1 < remaining rl \<or> clock env (ticks w) < real_of_int (reset_at rl)"
  shows "fst (update_rate_limit env rl w) = rl\<lparr>remaining := remaining rl - 1\<rparr>"
  using assms by (auto simp: update_rate_limit_def time_time_def Let_def)

lemma update_rate_limit_refill:
  assumes "remaining rl \<le> 1" and "real_of_int (reset_at rl) \<le> clock env (ticks w)"
  shows "update_rate_limit env rl w =
           (rl\<lparr>remaining := limit rl, reset_at := py_int (clock env (Suc (ticks w))) + 3600\<rparr>,
            w\<lparr>ticks := Suc (Suc (ticks w))\<rparr>)"
  using assms by (simp add: update_rate_limit_def time_time_def Let_def)

lemma repeat_update_before_reset:
  assumes "\<forall>n. clock env n < real_of_int (reset_at rl)"
  shows "fst (repeat_update env k (rl, w)) = rl\<lparr>remaining := remaining rl - int k\<rparr>"
proof (induction k)
  case 0
  show ?case by simp
next
  case (Suc k)
  obtain rl' w' where s: "repeat_update env k (rl, w) = (rl', w')"
    by (cases "repeat_update env k (rl, w)")
  with Suc have rl': "rl' = rl\<lparr>remaining := remaining rl - int k\<rparr>" by simp
  have "clock env (ticks w') < real_of_int (reset_at rl')"
    using assms rl' by simp
  then have "fst (update_rate_limit env rl' w') = rl'\<lparr>remaining := remaining rl' - 1\<rparr>"
    by (simp add: update_rate_limit_decrement)
  then show ?case using s rl' by simp
qed

lemma py_int_mono_int:
  assumes "real_of_int a \<le> x"
  shows "a \<le> py_int x"
proof (cases "0 \<le> x")
  case True
  then show ?thesis using assms by (simp add: py_int_def le_floor_iff)
next
  case False
  have "x \<le> real_of_int \<lceil>x\<rceil>" by (rule le_of_int_ceiling)
  with assms have "real_of_int a \<le> real_of_int \<lceil>x\<rceil>" by linarith
  then show ?thesis using False by (simp add: py_int_def)
qed

text \<open>
  C3, as amended. Each call of \<open>update_rate_limit\<close> made while the clock is before \<open>reset_at\<close>
  decrements \<open>remaining\<close> by one and changes nothing else, also once \<open>remaining\<close> has
  reached zero: there is no clamp, the counter goes negative. Starting from
  \<open>remaining = limit\<close>, after exactly \<open>limit\<close> such calls \<open>remaining\<close> is 0. A call that finds
  \<open>remaining\<close> at 1 or less when the clock is at or after \<open>reset_at\<close> sets \<open>remaining\<close> back
  to \<open>limit\<close> and \<open>reset_at\<close> to one hour after the (truncated) time of its second clock
  reading, which is at least one hour after the old \<open>reset_at\<close> when the clock does not run
  backwards.
\<close>

theorem rate_limit_counter:
  "((\<forall>n. clock env n < real_of_int (reset_at rl)) \<longrightarrow>
      fst (repeat_update env k (rl, w)) = rl\<lparr>remaining := remaining rl - int k\<rparr>)
   \<and> ((\<forall>n. clock env n < real_of_int (reset_at rl)) \<and> remaining rl = limit rl \<and> 0 \<le> limit rl \<longrightarrow>
      remaining (fst (repeat_update env (nat (limit rl)) (rl, w))) = 0)
   \<and> (remaining rl \<le> 1 \<and> real_of_int (reset_at rl) \<le> clock env (ticks w) \<longrightarrow>
      update_rate_limit env rl w =
        (rl\<lparr>remaining := limit rl, reset_at := py_int (clock env (Suc (ticks w))) + 3600\<rparr>,
         w\<lparr>ticks := Suc (Suc (ticks w))\<rparr>))
   \<and> (remaining rl \<le> 1 \<and> real_of_int (reset_at rl) \<le> clock env (ticks w)
        \<and> clock env (ticks w) \<le> clock env (Suc (ticks w)) \<longrightarrow>
      reset_at rl + 3600 \<le> reset_at (fst (update_rate_limit env rl w)))"
proof (intro conjI impI)
  assume "\<forall>n. clock env n < real_of_int (reset_at rl)"
  then show "fst (repeat_update env k (rl, w)) = rl\<lparr>remaining := remaining rl - int k\<rparr>"
    by (rule repeat_update_before_reset)
next
  assume a: "(\<forall>n. clock env n < real_of_int (reset_at rl)) \<and> remaining rl = limit rl \<and> 0 \<le> limit rl"
  then have "fst (repeat_update env (nat (limit rl)) (rl, w))
               = rl\<lparr>remaining := remaining rl - int (nat (limit rl))\<rparr>"
    by (simp add: repeat_update_before_reset)
  then show "remaining (fst (repeat_update env (nat (limit rl)) (rl, w))) = 0"
    using a by simp
next
  assume "remaining rl \<le> 1 \<and> real_of_int (reset_at rl) \<le> clock env (ticks w)"
  then show "update_rate_limit env rl w =
        (rl\<lparr>remaining := limit rl, reset_at := py_int (clock env (Suc (ticks w))) + 3600\<rparr>,
         w\<lparr>ticks := Suc (Suc (ticks w))\<rparr>)"
    by (simp add: update_rate_limit_refill)
next
  assume a: "remaining rl \<le> 1 \<and> real_of_int (reset_at rl) \<le> clock env (ticks w)
        \<and> clock env (ticks w) \<le> clock env (Suc (ticks w))"
  then have "real_of_int (reset_at rl) \<le> clock env (Suc (ticks w))" by linarith
  then have "reset_at rl \<le> py_int (clock env (Suc (ticks w)))" by (rule py_int_mono_int)
  then show "reset_at rl + 3600 \<le> reset_at (fst (update_rate_limit env rl w))"
    using a by (simp add: update_rate_limit_refill)
qed

lemma stub_clock: "clock (stub_env now reply resp) n = now"
  by (simp add: stub_env_def)

text \<open>Witness for C3: the counter as \<open>__init__\<close> leaves it at time 0, with the clock
  standing at 0, after 3 and after 100000 calls; and a call at time 3600.5 on the exhausted
  counter.\<close>

theorem rate_limit_counter_witness:
  "(\<forall>n. clock (stub_env 0 ok_message not_found) n < real_of_int (reset_at (init_rate_limit 0)))
   \<and> remaining (init_rate_limit 0) = limit (init_rate_limit 0) \<and> 0 \<le> limit (init_rate_limit 0)
   \<and> fst (repeat_update (stub_env 0 ok_message not_found) 3 (init_rate_limit 0, world0))
        = \<lparr>limit = 100000, remaining = 99997, reset_at = 3600\<rparr>
   \<and> remaining (fst (repeat_update (stub_env 0 ok_message not_found) 100000 (init_rate_limit 0, world0))) = 0
   \<and> remaining \<lparr>limit = 100000, remaining = 0, reset_at = 3600\<rparr> \<le> 1
   \<and> real_of_int (reset_at \<lparr>limit = 100000, remaining = 0, reset_at = 3600\<rparr>)
        \<le> clock (stub_env 3600.5 ok_message not_found) (ticks world0)
   \<and> update_rate_limit (stub_env 3600.5 ok_message not_found)
        \<lparr>limit = 100000, remaining = 0, reset_at = 3600\<rparr> world0
        = (\<lparr>limit = 100000, remaining = 100000, reset_at = 7200\<rparr>,
           \<lparr>ticks = 2, llm_calls = [], http_calls = []\<rparr>)
   \<and> reset_at \<lparr>limit = 100000, remaining = 0, reset_at = 3600\<rparr> + 3600
        \<le> reset_at (fst (update_rate_limit (stub_env 3600.5 ok_message not_found)
              \<lparr>limit = 100000, remaining = 0, reset_at = 3600\<rparr> world0))"
proof -
  let ?e = "stub_env 0 ok_message not_found"
  let ?e' = "stub_env 3600.5 ok_message not_found"
  let ?rl = "\<lparr>limit = 100000, remaining = 0, reset_at = 3600\<rparr>"
  have h1: "\<forall>n. clock ?e n < real_of_int (reset_at (init_rate_limit 0))"
    by (simp add: stub_clock init_rate_limit_def py_int_def)
  have h2: "remaining (init_rate_limit 0) = limit (init_rate_limit 0) \<and> 0 \<le> limit (init_rate_limit 0)"
    by (simp add: init_rate_limit_def)
  have h3: "remaining ?rl \<le> 1 \<and> real_of_int (reset_at ?rl) \<le> clock ?e' (ticks world0)"
    by (simp add: stub_clock)
  have h4: "clock ?e' (ticks world0) \<le> clock ?e' (Suc (ticks world0))"
    by (simp add: stub_clock)
  have f: "py_int 3600.5 = 3600" by (simp add: py_int_def)
  show ?thesis
    using h1 h2 h3 h4
      rate_limit_counter [of ?e "init_rate_limit 0" 3 world0]
      rate_limit_counter [of ?e "init_rate_limit 0" 100000 world0]
      rate_limit_counter [of ?e' ?rl 0 world0]
    by (simp add: init_rate_limit_def py_int_def stub_clock world0_def)
qed

text \<open>Counterexample to C3 as stated (\<open>remaining\<close> never goes below zero): 100001 calls
  within the first hour leave \<open>remaining\<close> at \<open>-1\<close>.\<close>

theorem rate_limit_goes_below_zero:
  "remaining (fst (repeat_update (stub_env 0 ok_message not_found) 100001 (init_rate_limit 0, world0))) = - 1"
proof -
  have "\<forall>n. clock (stub_env 0 ok_message not_found) n < real_of_int (reset_at (init_rate_limit 0))"
    by (simp add: stub_clock init_rate_limit_def py_int_def)
  then show ?thesis
    by (simp add: repeat_update_before_reset init_rate_limit_def)
qed

section \<open>Formatting the provider payload\<close>



































section \<open>The confidence score\<close>













section \<open>The weather agent's process_query\<close>

lemma update_rate_limit_one: "one_update rl (fst (update_rate_limit env rl w))"
  by (simp add: update_rate_limit_def one_update_def Let_def time_time_def)

lemma update_rate_limit_pair: "update_rate_limit env rl w = (rl', w') \<Longrightarrow> one_update rl rl'"
  using update_rate_limit_one [of rl env w] by simp

lemma one_update_decrement:
  "one_update rl rl' \<Longrightarrow> 1 < remaining rl \<Longrightarrow> rl' = rl\<lparr>remaining := remaining rl - 1\<rparr>"
  by (auto simp: one_update_def)

lemma off_topic_result:
  "\<exists>e w'. off_topic env query start_time ag w
            = (Inr e, ag\<lparr>rate_limit := fst (update_rate_limit env (rate_limit ag) w)\<rparr>, w')
          \<and> keys_of e = Some [''meta'', ''rate_limit'', ''response'', ''usage'', ''query'']
          \<and> lookup_path e [''response'', ''type''] = Some (JStr ''off_topic_response'')"
  by (simp add: off_topic_def Let_def split: prod.splits)

lemma weather_chat_Inr:
  assumes "weather_chat env query start_time location api_response_time fallback_used fw ag w
             = (Inr e, ag', w')"
  shows "last_location ag' = last_location ag
       \<and> one_update (rate_limit ag) (rate_limit ag')
       \<and> keys_of e = Some [''meta'', ''rate_limit'', ''weather_data'', ''response'', ''usage'', ''query'']
       \<and> lookup_path e [''weather_data''] = Some fw
       \<and> lookup_path e [''response'', ''type''] = Some (JStr ''weather_chat'')
       \<and> lookup_path e [''response'', ''fallback_used''] = Some (JBool fallback_used)
       \<and> lookup_path e [''response'', ''location_context'']
            = Some (JStr (if Some location = last_location ag then ''cached'' else ''new''))
       \<and> lookup_path e [''query'', ''extracted_location''] = Some (location_json location)"
  using assms
  by (auto simp: weather_chat_def Let_def split: prod.splits sum.splits
        dest: update_rate_limit_pair)

lemma weather_chat_Inl:
  assumes "weather_chat env query start_time location api_response_time fallback_used fw ag w
             = (Inl x, ag', w')"
  shows "last_location ag' = last_location ag
       \<and> (rate_limit ag' = rate_limit ag \<or> one_update (rate_limit ag) (rate_limit ag'))"
  using assms
  by (auto simp: weather_chat_def Let_def split: prod.splits sum.splits
        dest: update_rate_limit_pair)

lemma weather_report_Inr:
  assumes "weather_report env query start_time location weather_data api_response_time fallback_used
             fw ag w = (Inr e, ag', w')"
  shows "last_location ag' = last_location ag
       \<and> one_update (rate_limit ag) (rate_limit ag')
       \<and> keys_of e = Some [''meta'', ''rate_limit'', ''weather_data'', ''response'', ''usage'', ''query'']
       \<and> lookup_path e [''weather_data''] = Some fw
       \<and> lookup_path e [''response'', ''type''] = Some (JStr ''weather_report'')
       \<and> lookup_path e [''response'', ''fallback_used''] = Some (JBool fallback_used)
       \<and> lookup_path e [''query'', ''extracted_location''] = Some (location_json location)"
  using assms
  by (auto simp: weather_report_def Let_def split: prod.splits sum.splits
        dest: update_rate_limit_pair)

lemma weather_report_Inl:
  assumes "weather_report env query start_time location weather_data api_response_time fallback_used
             fw ag w = (Inl x, ag', w')"
  shows "last_location ag' = last_location ag
       \<and> (rate_limit ag' = rate_limit ag \<or> one_update (rate_limit ag) (rate_limit ag'))"
  using assms
  by (auto simp: weather_report_def Let_def split: prod.splits sum.splits
        dest: update_rate_limit_pair)


lemma resolve_location_None:
  "resolve_location extracted d c ag = None \<longleftrightarrow> extracted = None \<and> d"
  by (auto simp: resolve_location_def split: option.splits)

lemma resolve_location_Some:
  assumes "resolve_location extracted d c ag = Some (loc, ag1)"
  shows "rate_limit ag1 = rate_limit ag
       \<and> (case extracted of
             Some l \<Rightarrow> loc = l \<and> last_location ag1 = Some l
           | None \<Rightarrow> last_location ag1 = last_location ag
                \<and> (case last_location ag of
                      Some cached \<Rightarrow> if c \<and> \<not> d then loc = cached else loc = Location ''general''
                    | None \<Rightarrow> loc = Location ''general''))"
  using assms by (auto simp: resolve_location_def split: option.splits if_splits)

lemma location_error_shape:
  "keys_of location_error = Some [''error'']"
  by (simp add: location_error_def)

lemma process_query_cases [consumes 1, case_names off_topic extract_raised no_location format_raised chat report]:
  assumes "process_query env q ag w = (r, ag', w')"
  obtains
    "\<not> is_weather_query q" and "\<not> is_weather_related q"
      and "off_topic env q (fst (time_time env w)) ag (snd (time_time env w)) = (r, ag', w')"
  | x where "is_weather_query q \<or> is_weather_related q"
      and "extract_location env q (snd (time_time env w)) = (Inl x, w')"
      and "r = Inl x" and "ag' = ag"
  | "is_weather_query q"
      and "extract_location env q (snd (time_time env w)) = (Inr None, w')"
      and "r = Inr location_error" and "ag' = ag"
  | extracted w2 loc ag1 wd art fb x where "is_weather_query q \<or> is_weather_related q"
      and "extract_location env q (snd (time_time env w)) = (Inr extracted, w2)"
      and "resolve_location extracted (is_weather_query q) (is_weather_related q) ag = Some (loc, ag1)"
      and "get_weather_data env loc w2 = ((wd, art, fb), w')"
      and "format_weather_data (or_empty wd) = Inl x"
      and "r = Inl x" and "ag' = ag1"
  | extracted w2 loc ag1 wd art fb w3 fw where "is_weather_related q" and "\<not> is_weather_query q"
      and "extract_location env q (snd (time_time env w)) = (Inr extracted, w2)"
      and "resolve_location extracted False True ag = Some (loc, ag1)"
      and "get_weather_data env loc w2 = ((wd, art, fb), w3)"
      and "format_weather_data (or_empty wd) = Inr fw"
      and "weather_chat env q (fst (time_time env w)) loc art fb fw ag1 w3 = (r, ag', w')"
  | extracted w2 loc ag1 wd art fb w3 fw where "is_weather_query q"
      and "extract_location env q (snd (time_time env w)) = (Inr extracted, w2)"
      and "resolve_location extracted True (is_weather_related q) ag = Some (loc, ag1)"
      and "get_weather_data env loc w2 = ((wd, art, fb), w3)"
      and "format_weather_data (or_empty wd) = Inr fw"
      and "weather_report env q (fst (time_time env w)) loc wd art fb fw ag1 w3 = (r, ag', w')"
proof -
  obtain st w1 where t: "time_time env w = (st, w1)" by (cases "time_time env w")
  show thesis
  proof (cases "is_weather_query q \<or> is_weather_related q")
    case False
    with assms t have "off_topic env q st ag w1 = (r, ag', w')"
      by (auto simp: process_query_def)
    with False t show thesis using that(1) by simp
  next
    case True
    obtain ex w2 where x: "extract_location env q w1 = (ex, w2)" by (cases "extract_location env q w1")
    show thesis
    proof (cases ex)
      case (Inl y)
      with assms t True x have "r = Inl y" and "ag' = ag" and "w' = w2"
        by (auto simp: process_query_def)
      with True t x Inl show thesis using that(2) by simp
    next
      case (Inr extracted)
      show thesis
      proof (cases "resolve_location extracted (is_weather_query q) (is_weather_related q) ag")
        case None
        with assms t True x Inr have "r = Inr location_error" and "ag' = ag" and "w' = w2"
          by (auto simp: process_query_def)
        moreover from None have "extracted = None" and "is_weather_query q"
          by (simp_all add: resolve_location_None)
        ultimately show thesis using t x Inr that(3) by simp
      next
        case (Some p)
        obtain loc ag1 where p: "p = (loc, ag1)" by (cases p)
        obtain wd art fb w3 where g: "get_weather_data env loc w2 = ((wd, art, fb), w3)"
          by (cases "get_weather_data env loc w2") auto
        show thesis
        proof (cases "format_weather_data (or_empty wd)")
          case (Inl y)
          with assms t True x Inr Some p g have "r = Inl y" and "ag' = ag1" and "w' = w3"
            by (auto simp: process_query_def)
          with True t x Inr Some p g Inl show thesis using that(4) by simp
        next
          case fw: (Inr fw)
          show thesis
          proof (cases "is_weather_related q \<and> \<not> is_weather_query q")
            case chat: True
            with assms t True x Inr Some p g fw
            have "weather_chat env q st loc art fb fw ag1 w3 = (r, ag', w')"
              by (auto simp: process_query_def)
            with chat t x Inr Some p g fw show thesis using that(5) by simp
          next
            case report: False
            with assms t True x Inr Some p g fw
            have "weather_report env q st loc wd art fb fw ag1 w3 = (r, ag', w')"
              by (auto simp: process_query_def)
            moreover from report True have "is_weather_query q" by blast
            ultimately show thesis using t x Inr Some p g fw that(6) by simp
          qed
        qed
      qed
    qed
  qed
qed

lemma envelope_not_error:
  "keys_of e = Some (''meta'' # ks) \<Longrightarrow> e \<noteq> location_error"
  by (auto simp: location_error_def)

lemma off_topic_not_error:
  assumes "off_topic env q st ag w = (r, ag', w')"
  shows "\<exists>e. r = Inr e \<and> e \<noteq> location_error"
proof -
  obtain e w'' where "off_topic env q st ag w
            = (Inr e, ag\<lparr>rate_limit := fst (update_rate_limit env (rate_limit ag) w)\<rparr>, w'')"
      and "keys_of e = Some [''meta'', ''rate_limit'', ''response'', ''usage'', ''query'']"
    using off_topic_result by blast
  with assms envelope_not_error show ?thesis by auto
qed

lemma weather_chat_not_error:
  assumes "weather_chat env q st loc art fb fw ag w = (Inr e, ag', w')"
  shows "e \<noteq> location_error"
  using weather_chat_Inr [OF assms] envelope_not_error by blast

lemma weather_report_not_error:
  assumes "weather_report env q st loc wd art fb fw ag w = (Inr e, ag', w')"
  shows "e \<noteq> location_error"
  using weather_report_Inr [OF assms] envelope_not_error by blast

lemma process_query_rate_limit:
  assumes "process_query env q ag w = (r, ag', w')"
  shows "(case r of
            Inr e \<Rightarrow> if e = location_error then rate_limit ag' = rate_limit ag
                     else one_update (rate_limit ag) (rate_limit ag')
          | Inl x \<Rightarrow> rate_limit ag' = rate_limit ag \<or> one_update (rate_limit ag) (rate_limit ag'))"
  using assms
proof (cases rule: process_query_cases)
  case off_topic
  obtain e w'' where o: "off_topic env q (fst (time_time env w)) ag (snd (time_time env w))
            = (Inr e, ag\<lparr>rate_limit := fst (update_rate_limit env (rate_limit ag) (snd (time_time env w)))\<rparr>, w'')"
      and k: "keys_of e = Some [''meta'', ''rate_limit'', ''response'', ''usage'', ''query'']"
    using off_topic_result by blast
  from k have "e \<noteq> location_error" by (rule envelope_not_error)
  with off_topic(3) o show ?thesis by (auto simp: update_rate_limit_one)
next
  case (extract_raised x)
  then show ?thesis by simp
next
  case no_location
  then show ?thesis by simp
next
  case (format_raised extracted w2 loc ag1 wd art fb x)
  from format_raised(3) have "rate_limit ag1 = rate_limit ag"
    using resolve_location_Some by blast
  with format_raised show ?thesis by simp
next
  case (chat extracted w2 loc ag1 wd art fb w3 fw)
  from chat(4) have rl: "rate_limit ag1 = rate_limit ag"
    using resolve_location_Some by blast
  show ?thesis
  proof (cases r)
    case (Inl y)
    with chat(7) rl weather_chat_Inl [of env q _ loc art fb fw ag1 w3 y ag' w']
    show ?thesis by auto
  next
    case (Inr e)
    with chat(7) weather_chat_Inr [of env q _ loc art fb fw ag1 w3 e ag' w']
    have "one_update (rate_limit ag1) (rate_limit ag')" and "e \<noteq> location_error"
      using envelope_not_error by auto
    with rl Inr show ?thesis by simp
  qed
next
  case (report extracted w2 loc ag1 wd art fb w3 fw)
  from report(3) have rl: "rate_limit ag1 = rate_limit ag"
    using resolve_location_Some by blast
  show ?thesis
  proof (cases r)
    case (Inl y)
    with report(6) rl weather_report_Inl [of env q _ loc wd art fb fw ag1 w3 y ag' w']
    show ?thesis by auto
  next
    case (Inr e)
    with report(6) weather_report_Inr [of env q _ loc wd art fb fw ag1 w3 e ag' w']
    have "one_update (rate_limit ag1) (rate_limit ag')" and "e \<noteq> location_error"
      using envelope_not_error by auto
    with rl Inr show ?thesis by simp
  qed
qed


lemma lookup_absent:
  assumes "keys_of e = Some ks" and "k \<notin> set ks"
  shows "lookup_path e [k] = None"
proof (cases e)
  case (JObj d)
  with assms have "k \<notin> set (map fst d)" by simp
  then have "map_of d k = None" by (simp add: map_of_eq_None_iff)
  with JObj show ?thesis by simp
qed (use assms in auto)

lemma get_weather_data_not_200:
  assumes "strip (city loc) \<noteq> []"
    and "http_get env (length (http_calls w)) (strip (city loc)) = Inr resp"
    and "status_code resp \<noteq> 200"
  shows "\<exists>art w'. get_weather_data env loc w = ((None, art, True), w')"
  using assms
  by (simp add: get_weather_data_def Let_def time_time_def requests_get_def)

lemma format_nothing: "format_weather_data (or_empty None) = Inr unavailable"
  by (simp add: format_weather_data_def or_empty_def)

text \<open>
  C4, as amended. The weather agent's \<open>process_query\<close> calls \<open>update_rate_limit\<close> exactly once
  whenever it returns a response envelope (off-topic, weather chat or weather report): the
  counter is then one less, or, from a counter at 1 or less, possibly refilled to \<open>limit\<close>;
  from a counter above 1 it is exactly one less. An off-topic query always returns such an
  envelope. When the method returns the location error \<open>{"error": ...}\<close> the counter is
  unchanged, and when it raises, the counter is unchanged or was updated once.
\<close>

theorem rate_limit_counted_per_envelope:
  "(fst (process_query env q ag w) = Inr e \<and> e \<noteq> location_error \<longrightarrow>
      one_update (rate_limit ag) (rate_limit (fst (snd (process_query env q ag w))))
      \<and> (1 < remaining (rate_limit ag) \<longrightarrow>
           remaining (rate_limit (fst (snd (process_query env q ag w)))) = remaining (rate_limit ag) - 1))
   \<and> (fst (process_query env q ag w) = Inr location_error \<longrightarrow>
        rate_limit (fst (snd (process_query env q ag w))) = rate_limit ag)
   \<and> (fst (process_query env q ag w) = Inl x \<longrightarrow>
        rate_limit (fst (snd (process_query env q ag w))) = rate_limit ag
        \<or> one_update (rate_limit ag) (rate_limit (fst (snd (process_query env q ag w)))))
   \<and> (\<not> is_weather_query q \<and> \<not> is_weather_related q \<longrightarrow>
        (\<exists>e'. fst (process_query env q ag w) = Inr e' \<and> e' \<noteq> location_error))"
proof -
  obtain r ag' w' where p: "process_query env q ag w = (r, ag', w')"
    by (cases "process_query env q ag w")
  note rl = process_query_rate_limit [OF p]
  have "\<exists>e'. r = Inr e' \<and> e' \<noteq> location_error"
    if "\<not> is_weather_query q \<and> \<not> is_weather_related q"
    using p
  proof (cases rule: process_query_cases)
    case off_topic
    then show ?thesis using off_topic_not_error by blast
  qed (use that in auto)
  with rl p show ?thesis
    by (auto dest: one_update_decrement split: sum.splits if_splits)
qed

text \<open>Counterexample to C4 as stated (a query that ends in an error result decrements the
  counter too): the direct query \<open>forecast\<close>, for which no location is found while the model
  is unreachable, returns the location error and leaves \<open>remaining\<close> at 100000.\<close>

theorem error_result_not_counted:
  "fst (process_query (stub_env 0 api_down not_found) ''forecast'' (new_weather_agent 0) world0)
     = Inr location_error
   \<and> remaining (rate_limit (new_weather_agent 0)) = 100000
   \<and> remaining (rate_limit (fst (snd (process_query (stub_env 0 api_down not_found) ''forecast''
        (new_weather_agent 0) world0)))) = 100000"
  by code_simp

text \<open>Witness for C4: an off-topic query is counted; the location error and a failed model
  call on the report path are not.\<close>

theorem rate_limit_counted_witness:
  "\<not> is_weather_query ''tell me a joke'' \<and> \<not> is_weather_related ''tell me a joke''
   \<and> 1 < remaining (rate_limit (new_weather_agent 0))
   \<and> (\<exists>e. fst (process_query (stub_env 0 ok_message not_found) ''tell me a joke'' (new_weather_agent 0) world0)
             = Inr e \<and> e \<noteq> location_error)
   \<and> remaining (rate_limit (fst (snd (process_query (stub_env 0 ok_message not_found) ''tell me a joke''
         (new_weather_agent 0) world0)))) = remaining (rate_limit (new_weather_agent 0)) - 1
   \<and> fst (process_query (stub_env 0 api_down not_found) ''forecast'' (new_weather_agent 0) world0)
       = Inr location_error
   \<and> rate_limit (fst (snd (process_query (stub_env 0 api_down not_found) ''forecast''
         (new_weather_agent 0) world0))) = rate_limit (new_weather_agent 0)
   \<and> fst (process_query (stub_env 0 api_down not_found) ''weather in paris'' (new_weather_agent 0) world0)
       = Inl (ExternalError ''overloaded'')
   \<and> rate_limit (fst (snd (process_query (stub_env 0 api_down not_found) ''weather in paris''
         (new_weather_agent 0) world0))) = rate_limit (new_weather_agent 0)"
proof -
  let ?ok = "stub_env 0 ok_message not_found"
  let ?down = "stub_env 0 api_down not_found"
  let ?ag = "new_weather_agent 0"
  have h1: "\<not> is_weather_query ''tell me a joke'' \<and> \<not> is_weather_related ''tell me a joke''"
    by code_simp
  have h2: "1 < remaining (rate_limit ?ag)" by code_simp
  have h3: "fst (process_query ?down ''forecast'' ?ag world0) = Inr location_error" by code_simp
  have h4: "fst (process_query ?down ''weather in paris'' ?ag world0) = Inl (ExternalError ''overloaded'')"
    by code_simp
  have h5: "rate_limit (fst (snd (process_query ?down ''weather in paris'' ?ag world0))) = rate_limit ?ag"
    by code_simp
  from h1 obtain e where e: "fst (process_query ?ok ''tell me a joke'' ?ag world0) = Inr e"
    "e \<noteq> location_error"
    using rate_limit_counted_per_envelope [of ?ok "''tell me a joke''" ?ag world0 undefined undefined]
    by blast
  with h2 have d: "remaining (rate_limit (fst (snd (process_query ?ok ''tell me a joke'' ?ag world0))))
      = remaining (rate_limit ?ag) - 1"
    using rate_limit_counted_per_envelope [of ?ok "''tell me a joke''" ?ag world0 e undefined]
    by blast
  have u: "rate_limit (fst (snd (process_query ?down ''forecast'' ?ag world0))) = rate_limit ?ag"
    using h3 rate_limit_counted_per_envelope [of ?down "''forecast''" ?ag world0 undefined undefined]
    by blast
  show ?thesis using h1 h2 h3 h4 h5 e d u by blast
qed

text \<open>
  C1, as amended. For a direct weather query, \<open>process_query\<close> returns the error envelope
  \<open>{"error": "Could not determine location from query"}\<close>, which has no \<open>weather_data\<close> key,
  exactly when the extractor finds no location, and then nothing else is done. When the
  extractor does return a location (as for \<open>weather in Xyzzyplatypus123\<close>, which the first
  pattern matches) and the provider call returns a status other than 200, every envelope
  that \<open>process_query\<close> returns is a weather report with \<open>fallback_used\<close> true, no top-level
  \<open>error\<close> key, and a \<open>weather_data\<close> key holding the marker
  \<open>{"error": "Weather data currently unavailable"}\<close>.
\<close>

theorem direct_query_error_envelope:
  "(is_weather_query q \<and> extract_location env q (snd (time_time env w)) = (Inr None, w2) \<longrightarrow>
      process_query env q ag w = (Inr location_error, ag, w2))
   \<and> (fst (process_query env q ag w) = Inr location_error \<longrightarrow>
        is_weather_query q \<and> fst (extract_location env q (snd (time_time env w))) = Inr None)
   \<and> (is_weather_query q
        \<and> extract_location env q (snd (time_time env w)) = (Inr (Some loc), w2)
        \<and> strip (city loc) \<noteq> []
        \<and> http_get env (length (http_calls w2)) (strip (city loc)) = Inr resp
        \<and> status_code resp \<noteq> 200
        \<and> fst (process_query env q ag w) = Inr e \<longrightarrow>
          lookup_path e [''weather_data''] = Some unavailable
          \<and> lookup_path e [''error''] = None
          \<and> lookup_path e [''response'', ''type''] = Some (JStr ''weather_report'')
          \<and> lookup_path e [''response'', ''fallback_used''] = Some (JBool True))"
proof -
  have p1: "is_weather_query q \<and> extract_location env q (snd (time_time env w)) = (Inr None, w2) \<longrightarrow>
      process_query env q ag w = (Inr location_error, ag, w2)"
  proof
  assume a: "is_weather_query q \<and> extract_location env q (snd (time_time env w)) = (Inr None, w2)"
  obtain st w1 where t: "time_time env w = (st, w1)" by (cases "time_time env w")
  have "resolve_location None True (is_weather_related q) ag = None"
    by (simp add: resolve_location_None)
  with a t show "process_query env q ag w = (Inr location_error, ag, w2)"
    by (simp add: process_query_def)
  qed
  have p2: "fst (process_query env q ag w) = Inr location_error \<longrightarrow>
        is_weather_query q \<and> fst (extract_location env q (snd (time_time env w))) = Inr None"
  proof
  assume a: "fst (process_query env q ag w) = Inr location_error"
  obtain r ag' w' where p: "process_query env q ag w = (r, ag', w')"
    by (cases "process_query env q ag w")
  from p show "is_weather_query q \<and> fst (extract_location env q (snd (time_time env w))) = Inr None"
  proof (cases rule: process_query_cases)
    case off_topic
    with a p show ?thesis using off_topic_not_error by fastforce
  next
    case no_location
    then show ?thesis by simp
  next
    case (chat extracted w2 loc ag1 wd art fb w3 fw)
    with a p show ?thesis using weather_chat_not_error by fastforce
  next
    case (report extracted w2 loc ag1 wd art fb w3 fw)
    with a p show ?thesis using weather_report_not_error by fastforce
  qed (use a p in auto)
  qed
  have p3: "is_weather_query q
        \<and> extract_location env q (snd (time_time env w)) = (Inr (Some loc), w2)
        \<and> strip (city loc) \<noteq> []
        \<and> http_get env (length (http_calls w2)) (strip (city loc)) = Inr resp
        \<and> status_code resp \<noteq> 200
        \<and> fst (process_query env q ag w) = Inr e \<longrightarrow>
          lookup_path e [''weather_data''] = Some unavailable
          \<and> lookup_path e [''error''] = None
          \<and> lookup_path e [''response'', ''type''] = Some (JStr ''weather_report'')
          \<and> lookup_path e [''response'', ''fallback_used''] = Some (JBool True)"
  proof
  assume a: "is_weather_query q
        \<and> extract_location env q (snd (time_time env w)) = (Inr (Some loc), w2)
        \<and> strip (city loc) \<noteq> []
        \<and> http_get env (length (http_calls w2)) (strip (city loc)) = Inr resp
        \<and> status_code resp \<noteq> 200
        \<and> fst (process_query env q ag w) = Inr e"
  obtain r ag' w' where p: "process_query env q ag w = (r, ag', w')"
    by (cases "process_query env q ag w")
  with a have r: "r = Inr e" by simp
  from a obtain art w3 where g: "get_weather_data env loc w2 = ((None, art, True), w3)"
    using get_weather_data_not_200 by blast
  from p have "keys_of e = Some [''meta'', ''rate_limit'', ''weather_data'', ''response'', ''usage'', ''query'']
       \<and> lookup_path e [''weather_data''] = Some unavailable
       \<and> lookup_path e [''response'', ''type''] = Some (JStr ''weather_report'')
       \<and> lookup_path e [''response'', ''fallback_used''] = Some (JBool True)"
  proof (cases rule: process_query_cases)
    case (report extracted w2' loc' ag1 wd art' fb w3' fw)
    from report(2) a have "extracted = Some loc" and "w2' = w2" by simp_all
    with report(3) have "loc' = loc" using resolve_location_Some by fastforce
    with report(4) g \<open>w2' = w2\<close> have "wd = None" and "fb = True" by simp_all
    with report(5) have "fw = unavailable" by (simp add: format_nothing)
    with report(6) r \<open>fb = True\<close> show ?thesis
      using weather_report_Inr [of env q _ loc' wd art' fb fw ag1 w3' e ag' w'] by simp
  qed (use a r in auto)
  then show "lookup_path e [''weather_data''] = Some unavailable
          \<and> lookup_path e [''error''] = None
          \<and> lookup_path e [''response'', ''type''] = Some (JStr ''weather_report'')
          \<and> lookup_path e [''response'', ''fallback_used''] = Some (JBool True)"
    using lookup_absent [of e _ "''error''"] by auto
  qed
  from p1 p2 p3 show ?thesis by (intro conjI)
qed


text \<open>Counterexample to C1 as stated: for \<open>weather in Xyzzyplatypus123\<close> with a provider
  that answers 404, the result has a \<open>weather_data\<close> key and no \<open>error\<close> key.\<close>

theorem unresolvable_city_has_weather_data:
  "is_weather_query ''weather in Xyzzyplatypus123''
   \<and> http_get (stub_env 0 ok_message not_found) 0 ''xyzzyplatypus123'' = Inr \<lparr>status_code = 404, body = None\<rparr>
   \<and> envelope_key (fst (process_query (stub_env 0 ok_message not_found) ''weather in Xyzzyplatypus123''
         (new_weather_agent 0) world0)) [''weather_data''] = Some unavailable
   \<and> envelope_key (fst (process_query (stub_env 0 ok_message not_found) ''weather in Xyzzyplatypus123''
         (new_weather_agent 0) world0)) [''error''] = None
   \<and> envelope_key (fst (process_query (stub_env 0 ok_message not_found) ''weather in Xyzzyplatypus123''
         (new_weather_agent 0) world0)) [''response'', ''type''] = Some (JStr ''weather_report'')"
  by code_simp

text \<open>Witness for C1: \<open>forecast\<close> with an unreachable model gives the location error;
  \<open>weather in Xyzzyplatypus123\<close> with a provider that answers 404 gives a report.\<close>

theorem direct_query_error_envelope_witness:
  "is_weather_query ''forecast''
   \<and> extract_location (stub_env 0 api_down not_found) ''forecast''
        (snd (time_time (stub_env 0 api_down not_found) world0))
       = (Inr None, \<lparr>ticks = 1, llm_calls = [extract_request ''forecast''], http_calls = []\<rparr>)
   \<and> process_query (stub_env 0 api_down not_found) ''forecast'' (new_weather_agent 0) world0
       = (Inr location_error, new_weather_agent 0,
          \<lparr>ticks = 1, llm_calls = [extract_request ''forecast''], http_calls = []\<rparr>)
   \<and> is_weather_query ''weather in Xyzzyplatypus123''
   \<and> extract_location (stub_env 0 ok_message not_found) ''weather in Xyzzyplatypus123''
        (snd (time_time (stub_env 0 ok_message not_found) world0))
       = (Inr (Some (Location ''xyzzyplatypus123'')), \<lparr>ticks = 1, llm_calls = [], http_calls = []\<rparr>)
   \<and> status_code \<lparr>status_code = 404, body = None\<rparr> \<noteq> 200
   \<and> (\<exists>e. fst (process_query (stub_env 0 ok_message not_found) ''weather in Xyzzyplatypus123''
               (new_weather_agent 0) world0) = Inr e
          \<and> lookup_path e [''weather_data''] = Some unavailable
          \<and> lookup_path e [''error''] = None
          \<and> lookup_path e [''response'', ''type''] = Some (JStr ''weather_report'')
          \<and> lookup_path e [''response'', ''fallback_used''] = Some (JBool True))"
proof -
  let ?ok = "stub_env 0 ok_message not_found"
  let ?down = "stub_env 0 api_down not_found"
  let ?ag = "new_weather_agent 0"
  let ?w2 = "\<lparr>ticks = 1, llm_calls = [extract_request ''forecast''], http_calls = []\<rparr>"
  let ?w2' = "\<lparr>ticks = 1, llm_calls = [], http_calls = []\<rparr>"
  let ?q = "''weather in Xyzzyplatypus123''"
  let ?loc = "Location ''xyzzyplatypus123''"
  let ?resp = "\<lparr>status_code = 404, body = None\<rparr>"
  have d1: "is_weather_query ''forecast''" by code_simp
  have x1: "extract_location ?down ''forecast'' (snd (time_time ?down world0)) = (Inr None, ?w2)"
    by code_simp
  have d2: "is_weather_query ?q" by code_simp
  have x2: "extract_location ?ok ?q (snd (time_time ?ok world0)) = (Inr (Some ?loc), ?w2')"
    by code_simp
  have c: "strip (city ?loc) \<noteq> []" by code_simp
  have h: "http_get ?ok (length (http_calls ?w2')) (strip (city ?loc)) = Inr ?resp"
    by (simp add: stub_env_def not_found_def)
  have s: "status_code ?resp \<noteq> 200" by simp
  have "case fst (process_query ?ok ?q ?ag world0) of Inl x \<Rightarrow> False | Inr e \<Rightarrow> True"
    by code_simp
  then obtain e where e: "fst (process_query ?ok ?q ?ag world0) = Inr e"
    by (auto split: sum.splits)
  have a: "process_query ?down ''forecast'' ?ag world0 = (Inr location_error, ?ag, ?w2)"
    using d1 x1 direct_query_error_envelope [of "''forecast''" ?down world0 ?w2 ?ag]
    by blast
  have b: "lookup_path e [''weather_data''] = Some unavailable
          \<and> lookup_path e [''error''] = None
          \<and> lookup_path e [''response'', ''type''] = Some (JStr ''weather_report'')
          \<and> lookup_path e [''response'', ''fallback_used''] = Some (JBool True)"
    using d2 x2 c h s e
      direct_query_error_envelope [of ?q ?ok world0 ?w2' ?ag ?loc ?resp e]
    by blast
  show ?thesis using d1 x1 a d2 x2 s e b by blast
qed

text \<open>
  C9. On the weather-chat path (the query is weather-related and not a direct query), when
  \<open>process_query\<close> returns an envelope, its \<open>location_context\<close> is \<open>cached\<close> whenever the
  extractor returned a location (which is stored as \<open>last_location\<close> before the comparison)
  or a stored last location was reused; it is \<open>new\<close> only when the extractor returned nothing
  and nothing was stored, in which case the location of the envelope is the sentinel
  \<open>{"city": "general"}\<close> and \<open>last_location\<close> stays \<open>None\<close>, different from the sentinel.
\<close>

theorem chat_location_context:
  "is_weather_related q \<and> \<not> is_weather_query q
   \<and> process_query env q ag w = (Inr e, ag', w')
   \<and> fst (extract_location env q (snd (time_time env w))) = Inr extracted \<longrightarrow>
     lookup_path e [''response'', ''type''] = Some (JStr ''weather_chat'')
     \<and> lookup_path e [''response'', ''location_context'']
         = Some (JStr (if extracted = None \<and> last_location ag = None then ''new'' else ''cached''))
     \<and> (case extracted of
           Some l \<Rightarrow> last_location ag' = Some l
                    \<and> lookup_path e [''query'', ''extracted_location''] = Some (location_json l)
         | None \<Rightarrow>
             last_location ag' = last_location ag
             \<and> (case last_location ag of
                   Some cached \<Rightarrow>
                     lookup_path e [''query'', ''extracted_location''] = Some (location_json cached)
                 | None \<Rightarrow>
                     lookup_path e [''query'', ''extracted_location'']
                       = Some (location_json (Location ''general''))))"
proof
  assume a: "is_weather_related q \<and> \<not> is_weather_query q
   \<and> process_query env q ag w = (Inr e, ag', w')
   \<and> fst (extract_location env q (snd (time_time env w))) = Inr extracted"
  then have p: "process_query env q ag w = (Inr e, ag', w')" by simp
  from p show "lookup_path e [''response'', ''type''] = Some (JStr ''weather_chat'')
     \<and> lookup_path e [''response'', ''location_context'']
         = Some (JStr (if extracted = None \<and> last_location ag = None then ''new'' else ''cached''))
     \<and> (case extracted of
           Some l \<Rightarrow> last_location ag' = Some l
                    \<and> lookup_path e [''query'', ''extracted_location''] = Some (location_json l)
         | None \<Rightarrow>
             last_location ag' = last_location ag
             \<and> (case last_location ag of
                   Some cached \<Rightarrow>
                     lookup_path e [''query'', ''extracted_location''] = Some (location_json cached)
                 | None \<Rightarrow>
                     lookup_path e [''query'', ''extracted_location'']
                       = Some (location_json (Location ''general''))))"
  proof (cases rule: process_query_cases)
    case (chat extracted' w2 loc ag1 wd art fb w3 fw)
    from chat(3) a have ex: "extracted' = extracted" by simp
    note r = resolve_location_Some [OF chat(4)]
    note c = weather_chat_Inr [OF chat(7)]
    show ?thesis
    proof (cases extracted)
      case None
      with r ex c show ?thesis by (auto split: option.splits)
    next
      case (Some l)
      with r ex c show ?thesis by auto
    qed
  qed (use a in auto)
qed

text \<open>Witness for C9: a chat message for which the model extracts a location is reported
  \<open>cached\<close>; with a model that answers with an empty text it is reported \<open>new\<close>.\<close>

theorem chat_location_context_witness:
  "is_weather_related ''it is so cold'' \<and> \<not> is_weather_query ''it is so cold''
   \<and> fst (extract_location (stub_env 0 ok_message not_found) ''it is so cold''
        (snd (time_time (stub_env 0 ok_message not_found) world0))) = Inr (Some (Location ''ok''))
   \<and> (\<exists>e ag' w'. process_query (stub_env 0 ok_message not_found) ''it is so cold''
                    (new_weather_agent 0) world0 = (Inr e, ag', w')
        \<and> lookup_path e [''response'', ''location_context''] = Some (JStr ''cached'')
        \<and> last_location ag' = Some (Location ''ok''))
   \<and> fst (extract_location (stub_env 0 blank_message not_found) ''it is so cold''
        (snd (time_time (stub_env 0 blank_message not_found) world0))) = Inr None
   \<and> last_location (new_weather_agent 0) = None
   \<and> (\<exists>e ag' w'. process_query (stub_env 0 blank_message not_found) ''it is so cold''
                    (new_weather_agent 0) world0 = (Inr e, ag', w')
        \<and> lookup_path e [''response'', ''location_context''] = Some (JStr ''new'')
        \<and> lookup_path e [''query'', ''extracted_location''] = Some (location_json (Location ''general''))
        \<and> last_location ag' = None)"
proof -
  let ?ok = "stub_env 0 ok_message not_found"
  let ?blank = "stub_env 0 blank_message not_found"
  let ?ag = "new_weather_agent 0"
  let ?q = "''it is so cold''"
  have c: "is_weather_related ?q \<and> \<not> is_weather_query ?q" by code_simp
  have x1: "fst (extract_location ?ok ?q (snd (time_time ?ok world0))) = Inr (Some (Location ''ok''))"
    by code_simp
  have x2: "fst (extract_location ?blank ?q (snd (time_time ?blank world0))) = Inr None"
    by code_simp
  have l: "last_location ?ag = None" by (simp add: new_weather_agent_def)
  have "case fst (process_query ?ok ?q ?ag world0) of Inl x \<Rightarrow> False | Inr e \<Rightarrow> True"
    by code_simp
  then obtain e1 ag1 w1 where p1: "process_query ?ok ?q ?ag world0 = (Inr e1, ag1, w1)"
    by (cases "process_query ?ok ?q ?ag world0") (auto split: sum.splits)
  have "case fst (process_query ?blank ?q ?ag world0) of Inl x \<Rightarrow> False | Inr e \<Rightarrow> True"
    by code_simp
  then obtain e2 ag2 w2 where p2: "process_query ?blank ?q ?ag world0 = (Inr e2, ag2, w2)"
    by (cases "process_query ?blank ?q ?ag world0") (auto split: sum.splits)
  have a: "lookup_path e1 [''response'', ''location_context''] = Some (JStr ''cached'')
        \<and> last_location ag1 = Some (Location ''ok'')"
    using c x1 p1 chat_location_context [of ?q ?ok ?ag world0 e1 ag1 w1 "Some (Location ''ok'')"]
    by simp
  have b: "lookup_path e2 [''response'', ''location_context''] = Some (JStr ''new'')
        \<and> lookup_path e2 [''query'', ''extracted_location''] = Some (location_json (Location ''general''))
        \<and> last_location ag2 = None"
    using c x2 p2 l chat_location_context [of ?q ?blank ?ag world0 e2 ag2 w2 None]
    by simp
  show ?thesis using c x1 x2 l p1 p2 a b by blast
qed

section \<open>The location extractor\<close>

subsection \<open>Characters and the matcher\<close>

lemma word_not_space: "is_word c \<Longrightarrow> \<not> is_space c"
  by (auto simp: is_word_def is_space_def Let_def)

lemma of_char_lower:
  "is_upper c \<Longrightarrow> of_char (lower_char c) = (of_char c + 32 :: nat)"
  by (simp add: lower_char_def is_upper_def Let_def)

lemma is_word_lower [simp]: "is_word (lower_char c) = is_word c"
proof (cases "is_upper c")
  case True
  then have "of_char (lower_char c) = (of_char c + 32 :: nat)" by (rule of_char_lower)
  with True show ?thesis by (auto simp: is_word_def is_upper_def Let_def)
next
  case False
  then show ?thesis by (simp add: lower_char_def)
qed

lemma is_space_lower [simp]: "is_space (lower_char c) = is_space c"
proof (cases "is_upper c")
  case True
  then have "of_char (lower_char c) = (of_char c + 32 :: nat)" by (rule of_char_lower)
  with True show ?thesis by (auto simp: is_space_def is_upper_def Let_def)
next
  case False
  then show ?thesis by (simp add: lower_char_def)
qed

lemma in_class_WS [simp]: "in_class [Word, Space] c = (is_word c \<or> is_space c)"
  by (simp add: in_class_def)

lemma in_class_S [simp]: "in_class [Space] c = is_space c"
  by (simp add: in_class_def)

lemma strip_id:
  assumes "s \<noteq> []" and "\<not> is_space (hd s)" and "\<not> is_space (last s)"
  shows "strip s = s"
proof -
  from assms(1,2) have a: "dropWhile is_space s = s" by (cases s) auto
  from assms(1,3) have "dropWhile is_space (rev s) = rev s"
    by (cases "rev s") (auto simp: last_rev [symmetric] hd_rev)
  with a show ?thesis by (simp add: strip_def)
qed

lemma greedy_star_sound:
  "greedy_star P k inp = Some res \<Longrightarrow> \<exists>u rest. inp = u @ rest \<and> list_all P u \<and> k rest = Some res"
proof (induction inp)
  case Nil
  then show ?case by simp
next
  case (Cons c cs)
  show ?case
  proof (cases "P c \<and> greedy_star P k cs \<noteq> None")
    case True
    with Cons.prems have "greedy_star P k cs = Some res" by (auto split: option.splits)
    from Cons.IH [OF this] obtain u rest where "cs = u @ rest" "list_all P u" "k rest = Some res"
      by blast
    with True have "c # cs = (c # u) @ rest \<and> list_all P (c # u) \<and> k rest = Some res" by simp
    then show ?thesis by blast
  next
    case False
    with Cons.prems have "k (c # cs) = Some res" by (auto split: option.splits if_splits)
    then have "c # cs = [] @ (c # cs) \<and> list_all P [] \<and> k (c # cs) = Some res" by simp
    then show ?thesis by blast
  qed
qed

lemma greedy_plus_sound:
  assumes "greedy_plus P k inp = Some res"
  shows "\<exists>u rest. u \<noteq> [] \<and> inp = u @ rest \<and> list_all P u \<and> k rest = Some res"
proof (cases inp)
  case Nil
  with assms show ?thesis by simp
next
  case (Cons c cs)
  with assms have c: "P c" and "greedy_star P k cs = Some res" by (auto split: if_splits)
  from greedy_star_sound [OF this(2)] obtain u rest where
    "cs = u @ rest" "list_all P u" "k rest = Some res" by blast
  with Cons c have "c # u \<noteq> [] \<and> inp = (c # u) @ rest \<and> list_all P (c # u) \<and> k rest = Some res"
    by simp
  then show ?thesis by blast
qed

lemma lazy_plus_sound:
  "lazy_plus P k inp = Some res \<Longrightarrow>
     \<exists>u rest. u \<noteq> [] \<and> inp = u @ rest \<and> list_all P u \<and> k rest = Some res"
proof (induction inp)
  case Nil
  then show ?case by simp
next
  case (Cons c cs)
  then have c: "P c" by (auto split: if_splits)
  show ?case
  proof (cases "k cs")
    case None
    with Cons.prems c have "lazy_plus P k cs = Some res" by simp
    from Cons.IH [OF this] obtain u rest where
      "u \<noteq> []" "cs = u @ rest" "list_all P u" "k rest = Some res" by blast
    with c have "c # u \<noteq> [] \<and> c # cs = (c # u) @ rest \<and> list_all P (c # u) \<and> k rest = Some res"
      by simp
    then show ?thesis by blast
  next
    case (Some r)
    with Cons.prems c have "k cs = Some res" by simp
    with c have "[c] \<noteq> [] \<and> c # cs = [c] @ cs \<and> list_all P [c] \<and> k cs = Some res" by simp
    then show ?thesis by blast
  qed
qed

lemma rmatch_sound:
  "rmatch r k (inp, g) = Some res \<Longrightarrow> \<exists>rest g'. rm r inp rest \<and> k (rest, g') = Some res"
proof (induction r arbitrary: k inp g res)
  case (Lit l)
  then have "prefix l inp" and "k (drop (length l) inp, g) = Some res"
    by (auto split: if_splits)
  moreover from this(1) have "inp = l @ drop (length l) inp" by (auto simp: prefix_def)
  ultimately show ?case by (metis rm.simps(1))
next
  case (Alt a b)
  show ?case
  proof (cases "rmatch a k (inp, g)")
    case None
    with Alt.prems have "rmatch b k (inp, g) = Some res" by simp
    from Alt.IH(2) [OF this] show ?thesis by auto
  next
    case (Some r)
    with Alt.prems have "rmatch a k (inp, g) = Some res" by simp
    from Alt.IH(1) [OF this] show ?thesis by auto
  qed
next
  case (Seq a b)
  then have "rmatch a (\<lambda>st'. rmatch b k st') (inp, g) = Some res" by simp
  from Seq.IH(1) [OF this] obtain mid g1 where
    a: "rm a inp mid" and "rmatch b k (mid, g1) = Some res" by blast
  from Seq.IH(2) [OF this(2)] obtain rest g2 where "rm b mid rest" "k (rest, g2) = Some res"
    by blast
  with a show ?case by auto
next
  case (Opt a)
  show ?case
  proof (cases "rmatch a k (inp, g)")
    case None
    with Opt.prems have "k (inp, g) = Some res" by simp
    then show ?thesis by auto
  next
    case (Some r)
    with Opt.prems have "rmatch a k (inp, g) = Some res" by simp
    from Opt.IH [OF this] show ?thesis by auto
  qed
next
  case (Plus cl)
  then have "greedy_plus (in_class cl) (\<lambda>rest. k (rest, g)) inp = Some res" by simp
  from greedy_plus_sound [OF this] show ?case by auto
next
  case (Star cl)
  then have "greedy_star (in_class cl) (\<lambda>rest. k (rest, g)) inp = Some res" by simp
  from greedy_star_sound [OF this] show ?case by auto
next
  case (PlusLazy cl)
  then have "lazy_plus (in_class cl) (\<lambda>rest. k (rest, g)) inp = Some res" by simp
  from lazy_plus_sound [OF this] show ?case by auto
next
  case (Group a)
  then have "rmatch a (\<lambda>(rest, g'). k (rest, Some (take (length inp - length rest) inp))) (inp, g)
               = Some res" by simp
  from Group.IH [OF this] show ?case by auto
next
  case Eol
  then show ?case by (auto split: if_splits)
qed

lemma rmatch_None:
  assumes "\<And>rest. \<not> rm r inp rest"
  shows "rmatch r k (inp, g) = None"
proof (cases "rmatch r k (inp, g)")
  case (Some res)
  from rmatch_sound [OF this] assms show ?thesis by blast
qed simp

lemma lazy_plus_first:
  assumes "xs \<noteq> []" and "list_all P xs" and "k ys = Some r"
    and "\<And>i. 0 < i \<Longrightarrow> i < length xs \<Longrightarrow> k (drop i xs @ ys) = None"
  shows "lazy_plus P k (xs @ ys) = Some r"
  using assms
proof (induction xs)
  case Nil
  then show ?case by simp
next
  case (Cons c cs)
  show ?case
  proof (cases cs)
    case Nil
    with Cons.prems show ?thesis by simp
  next
    case (Cons d ds)
    have n: "k (cs @ ys) = None"
      using Cons.prems(4) [of 1] Cons by simp
    have "lazy_plus P k (cs @ ys) = Some r"
    proof (rule Cons.IH)
      show "cs \<noteq> []" using Cons by simp
      show "list_all P cs" using Cons.prems(2) by simp
      show "k ys = Some r" by (rule Cons.prems(3))
      fix i assume "0 < i" "i < length cs"
      then show "k (drop i cs @ ys) = None"
        using Cons.prems(4) [of "Suc i"] by simp
    qed
    with n Cons.prems(2) show ?thesis by simp
  qed
qed

subsection \<open>Queries of the form weather in city\<close>

lemma char_facts:
  "\<not> is_word (CHR ''?'')" "\<not> is_space (CHR ''?'')" "\<not> is_word (CHR 0x0A)" "is_space (CHR 0x0A)"
  "is_space (CHR '' '')" "\<not> is_space (CHR ''w'')"
  by code_simp+

lemma time_words_word: "t \<in> set time_words \<Longrightarrow> list_all is_word t \<and> t \<noteq> []"
proof -
  have "list_all (\<lambda>t. list_all is_word t \<and> t \<noteq> []) time_words" by code_simp
  then show "t \<in> set time_words \<Longrightarrow> list_all is_word t \<and> t \<noteq> []"
    by (simp add: list_all_iff)
qed

lemma rm_alts: "ts \<noteq> [] \<Longrightarrow> rm (alts ts) inp rest \<longleftrightarrow> (\<exists>t\<in>set ts. inp = t @ rest)"
  by (induction ts rule: alts.induct) auto

lemma time_words_nonempty: "time_words \<noteq> []"
  by (simp add: time_words_def)

lemma time_suffix_alt: "time_suffix = Opt (Seq (Plus [Space]) (alts time_words))"
  by (simp add: time_suffix_def time_words_def)

lemma time_ref_alt:
  "time_ref = Seq (Star [Space]) (Seq (alts time_words) (Seq (Star [Space]) Eol))"
  by (simp add: time_ref_def time_words_def)

lemma rm_time_suffix:
  "rm time_suffix inp mid \<longleftrightarrow>
     mid = inp \<or> (\<exists>u t. u \<noteq> [] \<and> list_all is_space u \<and> t \<in> set time_words \<and> inp = u @ t @ mid)"
proof -
  have "rm (Seq (Plus [Space]) (alts time_words)) inp mid \<longleftrightarrow>
     (\<exists>u t. u \<noteq> [] \<and> list_all is_space u \<and> t \<in> set time_words \<and> inp = u @ t @ mid)"
    by (simp add: rm_alts time_words_nonempty list_all_iff) blast
  then show ?thesis by (auto simp: time_suffix_alt)
qed

lemma rm_question_eol:
  assumes "rm (Seq (Opt (Lit ''?'')) Eol) mid rest"
  shows "mid = [] \<or> mid = [CHR 0x0A] \<or> (\<exists>x. mid = CHR ''?'' # x)"
  using assms by auto

lemma rm_tail:
  assumes "rm (Seq time_suffix (Seq (Opt (Lit ''?'')) Eol)) inp rest"
  shows "inp = [] \<or> inp = [CHR 0x0A] \<or> (\<exists>x. inp = CHR ''?'' # x)
       \<or> (\<exists>u t e. u \<noteq> [] \<and> list_all is_space u \<and> t \<in> set time_words \<and> inp = u @ t @ e
              \<and> (e = [] \<or> e = [CHR 0x0A] \<or> (\<exists>x. e = CHR ''?'' # x)))"
proof -
  from assms obtain mid where a: "rm time_suffix inp mid"
    and b: "rm (Seq (Opt (Lit ''?'')) Eol) mid rest"
    by (auto simp del: rm.simps(3) simp add: rm.simps(3) [of time_suffix])
  from b have e: "mid = [] \<or> mid = [CHR 0x0A] \<or> (\<exists>x. mid = CHR ''?'' # x)"
    by (rule rm_question_eol)
  from a consider "mid = inp"
    | u t where "u \<noteq> []" "list_all is_space u" "t \<in> set time_words" "inp = u @ t @ mid"
    by (auto simp: rm_time_suffix)
  then show ?thesis
  proof cases
    case 1
    with e show ?thesis by blast
  next
    case 2
    with e show ?thesis by blast
  qed
qed


lemma time_words_no_space: "t \<in> set time_words \<Longrightarrow> CHR '' '' \<notin> set t"
  using time_words_word [of t] word_not_space [of "CHR '' ''"] char_facts(5)
  by (auto simp: list_all_iff)

lemma time_words_no_question: "t \<in> set time_words \<Longrightarrow> CHR ''?'' \<notin> set t"
  using time_words_word [of t] char_facts(1) by (auto simp: list_all_iff)

lemma tail_fails_plain:
  assumes "zs \<noteq> []" and ws: "list_all (in_class [Word, Space]) zs" and lw: "is_word (last zs)"
    and ns: "\<And>t. t \<in> set time_words \<Longrightarrow> \<not> suffix t zs"
  shows "\<not> rm (Seq time_suffix (Seq (Opt (Lit ''?'')) Eol)) zs rest"
proof
  assume "rm (Seq time_suffix (Seq (Opt (Lit ''?'')) Eol)) zs rest"
  from rm_tail [OF this] consider "zs = []" | "zs = [CHR 0x0A]" | x where "zs = CHR ''?'' # x"
    | u t e where "t \<in> set time_words" "zs = u @ t @ e"
        "e = [] \<or> e = [CHR 0x0A] \<or> (\<exists>x. e = CHR ''?'' # x)"
    by blast
  then show False
  proof cases
    case 1
    with assms(1) show False by simp
  next
    case 2
    with lw char_facts(3) show False by simp
  next
    case 3
    with ws char_facts(1,2) show False by simp
  next
    case 4
    from 4(3) show False
    proof (elim disjE exE)
      assume "e = []"
      with 4(2) have "suffix t zs" by (simp add: suffix_def)
      with ns [OF 4(1)] show False by simp
    next
      assume "e = [CHR 0x0A]"
      with 4(2) have "last zs = CHR 0x0A" by simp
      with lw char_facts(3) show False by simp
    next
      fix x assume "e = CHR ''?'' # x"
      with 4(2) have "CHR ''?'' \<in> set zs" by simp
      with ws char_facts(1,2) show False by (auto simp: list_all_iff)
    qed
  qed
qed

lemma tail_fails_timed:
  assumes "zs \<noteq> []" and ws: "list_all (in_class [Word, Space]) zs" and lw: "is_word (last zs)"
    and t0: "t0 \<in> set time_words"
  shows "\<not> rm (Seq time_suffix (Seq (Opt (Lit ''?'')) Eol)) (zs @ CHR '' '' # t0) rest"
proof
  let ?inp = "zs @ CHR '' '' # t0"
  from t0 have t0w: "list_all is_word t0" and t0n: "t0 \<noteq> []" using time_words_word by auto
  have nq: "CHR ''?'' \<notin> set ?inp"
    using ws char_facts(1,2) time_words_no_question [OF t0] by (auto simp: list_all_iff)
  have lastw: "is_word (last ?inp)"
    using t0w t0n by (simp add: list_all_iff)
  assume "rm (Seq time_suffix (Seq (Opt (Lit ''?'')) Eol)) ?inp rest"
  from rm_tail [OF this] consider "?inp = []" | "?inp = [CHR 0x0A]" | x where "?inp = CHR ''?'' # x"
    | u t e where "u \<noteq> []" "list_all is_space u" "t \<in> set time_words" "?inp = u @ t @ e"
        "e = [] \<or> e = [CHR 0x0A] \<or> (\<exists>x. e = CHR ''?'' # x)"
    by blast
  then show False
  proof cases
    case 1
    then show False by simp
  next
    case 2
    with lastw char_facts(3) show False by simp
  next
    case 3
    then have "CHR ''?'' \<in> set ?inp" by simp
    with nq show False by simp
  next
    case 4
    from 4(5) show False
    proof (elim disjE exE)
      assume e: "e = []"
      with 4(4) have "zs @ (CHR '' '' # t0) = u @ t" by simp
      then obtain us where "zs = u @ us \<and> us @ (CHR '' '' # t0) = t \<or> zs @ us = u \<and> CHR '' '' # t0 = us @ t"
        by (auto simp: append_eq_append_conv2)
      then show False
      proof
        assume "zs = u @ us \<and> us @ (CHR '' '' # t0) = t"
        then have "CHR '' '' \<in> set t" by auto
        with time_words_no_space [OF 4(3)] show False by simp
      next
        assume "zs @ us = u \<and> CHR '' '' # t0 = us @ t"
        with 4(2) have "list_all is_space zs" by auto
        with assms(1) have "is_space (last zs)" by (simp add: list_all_iff)
        with lw word_not_space show False by blast
      qed
    next
      assume "e = [CHR 0x0A]"
      with 4(4) have "last ?inp = CHR 0x0A" by (metis last_appendR last_snoc list.discI append_assoc)
      with lastw char_facts(3) show False by simp
    next
      fix x assume "e = CHR ''?'' # x"
      with 4(4) have "CHR ''?'' \<in> set ?inp" by (metis in_set_conv_decomp append_assoc)
      with nq show False by simp
    qed
  qed
qed

lemma tail_accepts:
  "rmatch (Seq time_suffix (Seq (Opt (Lit ''?'')) Eol)) Some ([], g) = Some ([], g)"
  "rmatch (Seq time_suffix (Seq (Opt (Lit ''?'')) Eol)) Some ('' today'', g) = Some ([], g)"
  "rmatch (Seq time_suffix (Seq (Opt (Lit ''?'')) Eol)) Some ('' now'', g) = Some ([], g)"
  "rmatch (Seq time_suffix (Seq (Opt (Lit ''?'')) Eol)) Some ('' tomorrow'', g) = Some ([], g)"
  by code_simp+


lemma capture_city:
  assumes ne: "c \<noteq> []" and ws: "list_all (in_class [Word, Space]) c" and lw: "is_word (last c)"
    and ns: "\<And>t. t \<in> set time_words \<Longrightarrow> \<not> suffix t c"
    and sfx: "sfx = [] \<or> (\<exists>t0\<in>set time_words. sfx = CHR '' '' # t0)"
  shows "lazy_plus (in_class [Word, Space])
           (\<lambda>rest. rmatch (Seq time_suffix (Seq (Opt (Lit ''?'')) Eol)) Some
                      (rest, Some (take (length (c @ sfx) - length rest) (c @ sfx))))
           (c @ sfx) = Some ([], Some c)"
proof (rule lazy_plus_first [OF ne ws])
  have "rmatch (Seq time_suffix (Seq (Opt (Lit ''?'')) Eol)) Some (sfx, Some c) = Some ([], Some c)"
    using sfx tail_accepts [of "Some c"] by (auto simp: time_words_def)
  then show "rmatch (Seq time_suffix (Seq (Opt (Lit ''?'')) Eol)) Some
               (sfx, Some (take (length (c @ sfx) - length sfx) (c @ sfx))) = Some ([], Some c)"
    by simp
next
  fix i assume i: "0 < i" "i < length c"
  let ?zs = "drop i c"
  have z1: "?zs \<noteq> []" using i by simp
  have z2: "list_all (in_class [Word, Space]) ?zs"
    using ws by (auto simp: list_all_iff dest: in_set_dropD)
  have z3: "is_word (last ?zs)" using lw i by simp
  have z4: "\<not> suffix t ?zs" if "t \<in> set time_words" for t
  proof
    assume "suffix t ?zs"
    moreover have "suffix ?zs c" by (rule suffix_drop)
    ultimately have "suffix t c" by (rule suffix_order.trans)
    with ns [OF that] show False by simp
  qed
  have "\<not> rm (Seq time_suffix (Seq (Opt (Lit ''?'')) Eol)) (?zs @ sfx) rest" for rest
  proof (cases "sfx = []")
    case True
    have "\<not> rm (Seq time_suffix (Seq (Opt (Lit ''?'')) Eol)) ?zs rest"
      by (rule tail_fails_plain [OF z1 z2 z3 z4])
    with True show ?thesis by (metis append_Nil2)
  next
    case False
    with sfx obtain t0 where "t0 \<in> set time_words" and s: "sfx = CHR '' '' # t0" by blast
    from tail_fails_timed [OF z1 z2 z3 this(1)] s show ?thesis by blast
  qed
  then show "rmatch (Seq time_suffix (Seq (Opt (Lit ''?'')) Eol)) Some
               (?zs @ sfx, Some (take (length (c @ sfx) - length (?zs @ sfx)) (c @ sfx))) = None"
    by (rule rmatch_None)
qed

lemma search_weather_in:
  assumes ne: "c \<noteq> []" and ws: "list_all (in_class [Word, Space]) c" and lw: "is_word (last c)"
    and ns: "\<And>t. t \<in> set time_words \<Longrightarrow> \<not> suffix t c"
    and sfx: "sfx = [] \<or> (\<exists>t0\<in>set time_words. sfx = CHR '' '' # t0)"
  shows "first_match location_patterns (''weather in '' @ c @ sfx) = Some ([], Some c)"
  using capture_city [OF assms]
  by (simp add: location_patterns_def capture_tail_def)


lemma re_sub_unchanged:
  "(\<And>i. i < length s \<Longrightarrow> rmatch r Some (drop i s, None) = None) \<Longrightarrow> re_sub r s = s"
proof (induction s)
  case Nil
  show ?case by simp
next
  case (Cons c cs)
  have "rmatch r Some (c # cs, None) = None" using Cons.prems [of 0] by simp
  moreover have "re_sub r cs = cs"
  proof (rule Cons.IH)
    fix i assume "i < length cs"
    then show "rmatch r Some (drop i cs, None) = None" using Cons.prems [of "Suc i"] by simp
  qed
  ultimately show ?case by simp
qed

lemma rm_time_ref:
  assumes "rm time_ref inp rest"
  shows "\<exists>u t v. t \<in> set time_words \<and> list_all is_space v \<and> inp = u @ t @ v @ rest
           \<and> (rest = [] \<or> rest = [CHR 0x0A])"
  using assms by (simp add: time_ref_alt rm_alts time_words_nonempty list_all_iff) blast

lemma time_ref_fails:
  assumes "zs \<noteq> []" and lw: "is_word (last zs)"
    and ns: "\<And>t. t \<in> set time_words \<Longrightarrow> \<not> suffix t zs"
  shows "\<not> rm time_ref zs rest"
proof
  assume "rm time_ref zs rest"
  from rm_time_ref [OF this] obtain u t v where t: "t \<in> set time_words"
    and v: "list_all is_space v" and z: "zs = u @ t @ v @ rest"
    and r: "rest = [] \<or> rest = [CHR 0x0A]" by blast
  from r show False
  proof
    assume "rest = [CHR 0x0A]"
    with z have "last zs = CHR 0x0A" by simp
    with lw char_facts(3) show False by simp
  next
    assume e: "rest = []"
    show False
    proof (cases "v = []")
      case True
      with z e have "suffix t zs" by (simp add: suffix_def)
      with ns [OF t] show False by simp
    next
      case False
      with z e have "last zs = last v" by simp
      moreover from False v have "is_space (last v)" by (simp add: list_all_iff)
      ultimately show False using lw word_not_space by auto
    qed
  qed
qed

lemma re_sub_plain:
  assumes "c \<noteq> []" and lw: "is_word (last c)"
    and ns: "\<And>t. t \<in> set time_words \<Longrightarrow> \<not> suffix t c"
  shows "re_sub time_ref c = c"
proof (rule re_sub_unchanged)
  fix i assume i: "i < length c"
  let ?zs = "drop i c"
  have z1: "?zs \<noteq> []" using i by simp
  have z3: "is_word (last ?zs)" using lw i by simp
  have z4: "\<not> suffix t ?zs" if "t \<in> set time_words" for t
  proof
    assume "suffix t ?zs"
    moreover have "suffix ?zs c" by (rule suffix_drop)
    ultimately have "suffix t c" by (rule suffix_order.trans)
    with ns [OF that] show False by simp
  qed
  have "\<not> rm time_ref ?zs rest" for rest by (rule time_ref_fails [OF z1 z3 z4])
  then show "rmatch time_ref Some (?zs, None) = None" by (rule rmatch_None)
qed

lemma lower_literals:
  "lower ''weather in '' = ''weather in ''"
  "list_all (\<lambda>t. lower (CHR '' '' # t) = CHR '' '' # t) time_words"
  by code_simp+

lemma plain_city_lower:
  assumes "plain_city c"
  shows "lower c \<noteq> []" and "list_all (in_class [Word, Space]) (lower c)"
    and "is_word (hd (lower c))" and "is_word (last (lower c))"
    and "\<And>t. t \<in> set time_words \<Longrightarrow> \<not> suffix t (lower c)"
  using assms
  by (auto simp: plain_city_def lower_def list_all_iff hd_map last_map)

lemma extract_weather_in:
  assumes p: "plain_city c"
    and sfx: "sfx = [] \<or> (\<exists>t0\<in>set time_words. sfx = CHR '' '' # t0)"
  shows "extract_location env (''weather in '' @ c @ sfx) w = (Inr (Some (Location (lower c))), w)"
proof -
  note l = plain_city_lower [OF p]
  have ls: "lower sfx = sfx" using sfx lower_literals(2) by (auto simp: list_all_iff lower_def)
  have lq: "lower (''weather in '' @ c @ sfx) = ''weather in '' @ lower c @ sfx"
    using lower_literals(1) ls by (simp add: lower_def)
  have nsp: "\<not> is_space (last (lower c @ sfx))"
  proof (cases "sfx = []")
    case True
    with l(4) word_not_space show ?thesis by auto
  next
    case False
    with sfx obtain t0 where t0: "t0 \<in> set time_words" and s: "sfx = CHR '' '' # t0" by blast
    from time_words_word [OF t0] have "is_word (last t0)" and "t0 \<noteq> []"
      by (auto simp: list_all_iff)
    with s word_not_space show ?thesis by auto
  qed
  have "lower c @ sfx \<noteq> []" using l(1) by simp
  then have "last (''weather in '' @ (lower c @ sfx)) = last (lower c @ sfx)"
    by (rule last_appendR)
  with nsp have "\<not> is_space (last (''weather in '' @ lower c @ sfx))" by simp
  then have st: "strip (''weather in '' @ lower c @ sfx) = ''weather in '' @ lower c @ sfx"
    using char_facts(6) by (intro strip_id) auto
  have fm: "first_match location_patterns (''weather in '' @ lower c @ sfx) = Some ([], Some (lower c))"
    by (rule search_weather_in [OF l(1) l(2) l(4) l(5) sfx])
  have sc: "strip (lower c) = lower c"
    using l(1) l(3) l(4) word_not_space by (intro strip_id) auto
  have rs: "re_sub time_ref (lower c) = lower c"
    by (rule re_sub_plain [OF l(1) l(4) l(5)])
  show ?thesis
    by (simp only: extract_location_def lq st fm sc rs Let_def option.case prod.case)
qed

text \<open>
  C2, as amended. For every city name \<open>c\<close> made of word characters and whitespace that starts
  and ends with a word character and whose lower-case form does not end with the letters
  \<open>today\<close>, \<open>now\<close> or \<open>tomorrow\<close>, \<open>extract_location\<close> on the query \<open>weather in c\<close> returns
  \<open>{city: c}\<close> with \<open>c\<close> in lower case, without calling the model; and it returns the same
  when the query ends with one more token \<open>today\<close>, \<open>now\<close> or \<open>tomorrow\<close>, which is stripped.
\<close>

theorem weather_in_city_extracted:
  "plain_city c \<longrightarrow>
     extract_location env (''weather in '' @ c) w = (Inr (Some (Location (lower c))), w)
     \<and> extract_location env (''weather in '' @ c @ '' today'') w
         = (Inr (Some (Location (lower c))), w)
     \<and> extract_location env (''weather in '' @ c @ '' now'') w
         = (Inr (Some (Location (lower c))), w)
     \<and> extract_location env (''weather in '' @ c @ '' tomorrow'') w
         = (Inr (Some (Location (lower c))), w)"
proof
  assume p: "plain_city c"
  have "extract_location env (''weather in '' @ c @ []) w = (Inr (Some (Location (lower c))), w)"
    by (rule extract_weather_in [OF p]) simp
  moreover have "extract_location env (''weather in '' @ c @ CHR '' '' # t) w
      = (Inr (Some (Location (lower c))), w)" if "t \<in> set time_words" for t
    by (rule extract_weather_in [OF p]) (use that in blast)
  ultimately show "extract_location env (''weather in '' @ c) w = (Inr (Some (Location (lower c))), w)
     \<and> extract_location env (''weather in '' @ c @ '' today'') w
         = (Inr (Some (Location (lower c))), w)
     \<and> extract_location env (''weather in '' @ c @ '' now'') w
         = (Inr (Some (Location (lower c))), w)
     \<and> extract_location env (''weather in '' @ c @ '' tomorrow'') w
         = (Inr (Some (Location (lower c))), w)"
    by (simp add: time_words_def)
qed

text \<open>Witness for C2: \<open>weather in New York\<close>, alone and followed by \<open>today\<close>.\<close>

theorem weather_in_city_extracted_witness:
  "plain_city ''New York''
   \<and> extract_location (stub_env 0 api_down not_found) ''weather in New York'' world0
       = (Inr (Some (Location ''new york'')), world0)
   \<and> extract_location (stub_env 0 api_down not_found) ''weather in New York today'' world0
       = (Inr (Some (Location ''new york'')), world0)"
proof -
  have p: "plain_city ''New York''" by code_simp
  have l: "lower ''New York'' = ''new york''" by code_simp
  show ?thesis
    using p l weather_in_city_extracted [of "''New York''" "stub_env 0 api_down not_found" world0]
    by simp
qed

text \<open>Counterexample to C2 as stated (the city text is returned unchanged): the query is
  lower-cased before it is matched, so \<open>weather in Paris\<close> gives the city \<open>paris\<close>.\<close>

theorem city_is_lower_cased:
  "fst (extract_location (stub_env 0 api_down not_found) ''weather in Paris'' world0)
     = Inr (Some (Location ''paris''))
   \<and> Location ''paris'' \<noteq> Location ''Paris''"
  by code_simp

text \<open>The pattern of \<open>re.sub\<close> has no word boundary before the time word: a city whose name
  ends with the letters \<open>now\<close> loses them.\<close>

lemma city_ending_in_now_truncated:
  "fst (extract_location (stub_env 0 api_down not_found) ''weather in Lucknow'' world0)
     = Inr (Some (Location ''luck''))"
  by code_simp


section \<open>Evaluation helpers\<close>

lemma show_nat_small: "n < 10 \<Longrightarrow> show_nat n = [digit_char n]"
  by (subst show_nat.simps) simp

lemma show_nat_step: "10 \<le> n \<Longrightarrow> show_nat n = show_nat (n div 10) @ [digit_char (n mod 10)]"
  by (subst show_nat.simps) simp

lemma digit_chars:
  "digit_char 0 = CHR ''0''" "digit_char 1 = CHR ''1''" "digit_char (Suc 0) = CHR ''1''"
  "digit_char 2 = CHR ''2''" "digit_char 3 = CHR ''3''" "digit_char 4 = CHR ''4''"
  "digit_char 5 = CHR ''5''" "digit_char 6 = CHR ''6''" "digit_char 7 = CHR ''7''"
  "digit_char 8 = CHR ''8''" "digit_char 9 = CHR ''9''"
  by code_simp+

section \<open>The language agent's input validation\<close>

lemma length_error_text:
  "length_error env t =
     JObj [(''error'', JStr ''Input text must be between 1 and 200000 tokens''),
           (''meta'', JObj [(''timestamp'', JStr (isoformat env t))])]"
proof -
  have a: "show_int MIN_INPUT_TOKENS = ''1''"
    by (simp add: show_int_def MIN_INPUT_TOKENS_def show_nat_small digit_chars)
  have b: "show_int MAX_TOTAL_TOKENS = ''200000''"
    by (simp add: show_int_def MAX_TOTAL_TOKENS_def show_nat_small show_nat_step digit_chars)
  show ?thesis by (simp add: length_error_def a b)
qed

lemma lang_estimate_tokens_ge_1: "1 \<le> lang_estimate_tokens s"
  by (simp add: lang_estimate_tokens_def)

lemma validate_input_length_iff:
  "validate_input_length s = (lang_estimate_tokens s \<le> 200000)"
  using lang_estimate_tokens_ge_1 [of s]
  by (simp add: validate_input_length_def MIN_INPUT_TOKENS_def MAX_TOTAL_TOKENS_def Let_def)

lemma lang_process_query_rejected:
  assumes "\<not> validate_input_length user_input"
  shows "lang_process_query env user_input language ag w =
           (length_error env (clock env (Suc (ticks w))), ag, w\<lparr>ticks := Suc (Suc (ticks w))\<rparr>)"
  using assms
  by (simp add: lang_process_query_def lang_try_body_def time_time_def)

lemma lang_process_query_calls:
  assumes "validate_input_length user_input"
  shows "llm_calls (snd (snd (lang_process_query env user_input language ag w)))
           = llm_calls w @ [lang_request user_input language]"
  using assms
  by (simp add: lang_process_query_def lang_try_body_def time_time_def create_def Let_def
      update_rate_limit_def split: sum.splits prod.splits)

text \<open>
  C7. The language agent's \<open>process_query\<close> accepts an input exactly when its estimated token
  count (a quarter of its length, at least 1) lies between 1 and 200000; for every input
  whose estimate is out of that range it returns the error envelope (an \<open>error\<close> text and a
  \<open>meta\<close> timestamp), leaves the agent as it was and makes no model call (and no other
  outbound call).
\<close>

theorem out_of_range_input_rejected_without_call:
  "validate_input_length user_input
     = (1 \<le> lang_estimate_tokens user_input \<and> lang_estimate_tokens user_input \<le> 200000)
   \<and> (\<not> (1 \<le> lang_estimate_tokens user_input \<and> lang_estimate_tokens user_input \<le> 200000) \<longrightarrow>
        (\<exists>t w'. lang_process_query env user_input language ag w =
                  (JObj [(''error'', JStr ''Input text must be between 1 and 200000 tokens''),
                         (''meta'', JObj [(''timestamp'', JStr t)])], ag, w')
                \<and> llm_calls w' = llm_calls w \<and> http_calls w' = http_calls w))"
proof (intro conjI impI)
  show "validate_input_length user_input
     = (1 \<le> lang_estimate_tokens user_input \<and> lang_estimate_tokens user_input \<le> 200000)"
    using lang_estimate_tokens_ge_1 [of user_input] by (simp add: validate_input_length_iff)
next
  assume "\<not> (1 \<le> lang_estimate_tokens user_input \<and> lang_estimate_tokens user_input \<le> 200000)"
  then have "\<not> validate_input_length user_input"
    using lang_estimate_tokens_ge_1 [of user_input] by (simp add: validate_input_length_iff)
  then show "\<exists>t w'. lang_process_query env user_input language ag w =
                  (JObj [(''error'', JStr ''Input text must be between 1 and 200000 tokens''),
                         (''meta'', JObj [(''timestamp'', JStr t)])], ag, w')
                \<and> llm_calls w' = llm_calls w \<and> http_calls w' = http_calls w"
    by (simp add: lang_process_query_rejected length_error_text)
qed

text \<open>Witness for C7: an input of 800004 characters has the estimate 200001; it is rejected
  and the list of model calls stays empty.\<close>

theorem out_of_range_input_rejected_witness:
  "\<not> (1 \<le> lang_estimate_tokens (replicate 800004 (CHR ''a''))
        \<and> lang_estimate_tokens (replicate 800004 (CHR ''a'')) \<le> 200000)
   \<and> (\<exists>t w'. lang_process_query (stub_env 0 ok_message not_found) (replicate 800004 (CHR ''a'')) ''en''
                 (new_language_agent 0) world0 =
                  (JObj [(''error'', JStr ''Input text must be between 1 and 200000 tokens''),
                         (''meta'', JObj [(''timestamp'', JStr t)])], new_language_agent 0, w')
                \<and> llm_calls w' = [] \<and> http_calls w' = [])"
proof -
  have h: "\<not> (1 \<le> lang_estimate_tokens (replicate 800004 (CHR ''a''))
        \<and> lang_estimate_tokens (replicate 800004 (CHR ''a'')) \<le> 200000)"
    by (simp add: lang_estimate_tokens_def)
  show ?thesis
    using h out_of_range_input_rejected_without_call
      [of "replicate 800004 (CHR ''a'')" "stub_env 0 ok_message not_found" "''en''"
          "new_language_agent 0" world0]
    by (simp add: world0_def)
qed

text \<open>
  C10. For every input string, the empty one included, the language agent's
  \<open>estimate_tokens\<close> returns at least 1, so the minimum bound of \<open>validate_input_length\<close>
  always holds: validation fails exactly when the estimate exceeds the maximum of 200000,
  the empty input passes, and \<open>process_query\<close> on the empty input makes the model call.
\<close>

theorem estimate_never_below_minimum:
  "1 \<le> lang_estimate_tokens s
   \<and> MIN_INPUT_TOKENS \<le> lang_estimate_tokens s
   \<and> validate_input_length s = (lang_estimate_tokens s \<le> MAX_TOTAL_TOKENS)
   \<and> MAX_TOTAL_TOKENS = 200000
   \<and> validate_input_length []
   \<and> llm_calls (snd (snd (lang_process_query env [] language ag w)))
       = llm_calls w @ [lang_request [] language]"
proof -
  have v: "validate_input_length []"
    by (simp add: validate_input_length_iff lang_estimate_tokens_def)
  show ?thesis
    using lang_estimate_tokens_ge_1 [of s] v
    by (simp add: validate_input_length_iff MIN_INPUT_TOKENS_def MAX_TOTAL_TOKENS_def
        lang_process_query_calls)
qed

end
